theory Spec2Isabelle
  imports Main "HOL-Library.Word"
begin

section \<open>The foreign-call boundary (\<^verbatim>\<open>_bindings.py\<close>)\<close>

text \<open>
  The values that cross the boundary. A C \<^verbatim>\<open>int\<close> is a 32-bit word, read on the
  Python side as a signed integer (\<open>sint\<close>); a \<^verbatim>\<open>uint16\<close> is a 16-bit word; a C
  \<^verbatim>\<open>double\<close> is carried as its 64-bit IEEE pattern, since the wrapper only copies
  doubles and never computes with them. A C \<^verbatim>\<open>char\<close> is a \<open>char\<close> (one byte), and
  a Python \<^verbatim>\<open>str\<close> is carried as the byte string of its UTF-8 encoding, so that
  \<^verbatim>\<open>s.encode('utf-8')\<close> is the identity and only decoding can fail.
\<close>

type_synonym c_int = "32 word"
type_synonym c_uint16 = "16 word"
type_synonym c_double = "64 word"

definition ERROR_NONE :: int where "ERROR_NONE = 0"
definition ERROR_NOT_INITIALISED :: int where "ERROR_NOT_INITIALISED = 1"
definition GLAZ_LINESCAN_II_V2_SINGLE_DEVICE_TYPE :: int where
  "GLAZ_LINESCAN_II_V2_SINGLE_DEVICE_TYPE = 6"

text \<open>
  One constructor for each entry point that \<^verbatim>\<open>_bindings.py\<close> declares, in the order
  of the declarations, with the arguments the wrapper passes. Integer arguments are
  the Python integers handed to ctypes. An integer passed by reference
  (\<^verbatim>\<open>byref(size)\<close>) appears with the value it holds when the call is made. A pointer
  to a buffer appears as \<open>None\<close> for the null pointer and as \<open>Some n\<close> for a buffer
  of \<open>n\<close> elements. Out-parameters that are fresh on every call (\<^verbatim>\<open>c_int()\<close>,
  \<^verbatim>\<open>c_bool()\<close>, \<^verbatim>\<open>c_double()\<close>) are not listed.
\<close>

datatype (plugins only: code) native_call =
    GetVersion
  | GetLastErrorMessage nat
  | GetUSBParameters
  | SetUSBParameters int int int
  | EnableDataStreamLog bool
  | InitialiseSession string
  | InitialiseSingleDeviceSession int bool bool
  | CloseSession
  | ResetAllDevices
  | ResetAllPorts
  | SetTestMode int
  | SetWavelengths c_double c_double
  | SetHardwareAveraging int
  | SetResolution int
  | SetScanCount int
  | SetScanClockSpeed int
  | SetADCGain int
  | SetTriggerDelay int
  | SetTriggerMode int
  | SetInternalTriggerFrequency c_double
  | SetIntegrationMode int
  | SetIntegrationTime int
  | SetSyncOutMode int
  | SetSyncOutPolarity int
  | SetAuxOutMode int
  | SetAuxOutPolarity int
  | SetOutCycleCount int
  | SetTimeout int
  | CaptureBackground int
  | RunMeasurement
  | StartMeasurement
  | IsMeasurementDone
  | GetResult int c_int "nat option"
  | GetComplexResult int c_int "nat option" "nat option"
  | GetTimeStamp int int
  | GetScan int int c_int "nat option"
  | GetComplexScan int int c_int "nat option" "nat option"
  | GetAllScansSizes int
  | GetAllScans int "nat option"
  | WriteAllScansToFile int string bool
  | GetPDValues int int c_int "nat option"
  | GetPDReference int int
  | GetAUXStates int c_int "nat option"
  | GetAUXCycleCounts int int c_int "nat option"
  | RunUSBCommsTest

text \<open>The declared \<^verbatim>\<open>restype\<close> of each entry point: \<^verbatim>\<open>c_int\<close> or \<^verbatim>\<open>None\<close>.\<close>

datatype result_type = C_int | C_void

primrec restype :: "native_call \<Rightarrow> result_type" where
  "restype GetVersion = C_void"
| "restype (GetLastErrorMessage n) = C_int"
| "restype GetUSBParameters = C_void"
| "restype (SetUSBParameters t b q) = C_void"
| "restype (EnableDataStreamLog e) = C_void"
| "restype (InitialiseSession p) = C_int"
| "restype (InitialiseSingleDeviceSession d u a) = C_int"
| "restype CloseSession = C_int"
| "restype ResetAllDevices = C_void"
| "restype ResetAllPorts = C_void"
| "restype (SetTestMode m) = C_int"
| "restype (SetWavelengths lo hi) = C_int"
| "restype (SetHardwareAveraging a) = C_int"
| "restype (SetResolution r) = C_int"
| "restype (SetScanCount n) = C_int"
| "restype (SetScanClockSpeed v) = C_int"
| "restype (SetADCGain g) = C_int"
| "restype (SetTriggerDelay d) = C_int"
| "restype (SetTriggerMode m) = C_int"
| "restype (SetInternalTriggerFrequency f) = C_int"
| "restype (SetIntegrationMode m) = C_int"
| "restype (SetIntegrationTime t) = C_int"
| "restype (SetSyncOutMode m) = C_int"
| "restype (SetSyncOutPolarity p) = C_int"
| "restype (SetAuxOutMode m) = C_int"
| "restype (SetAuxOutPolarity p) = C_int"
| "restype (SetOutCycleCount n) = C_int"
| "restype (SetTimeout t) = C_int"
| "restype (CaptureBackground n) = C_int"
| "restype RunMeasurement = C_int"
| "restype StartMeasurement = C_int"
| "restype IsMeasurementDone = C_int"
| "restype (GetResult i n b) = C_int"
| "restype (GetComplexResult i n b1 b2) = C_int"
| "restype (GetTimeStamp i ch) = C_int"
| "restype (GetScan i j n b) = C_int"
| "restype (GetComplexScan i j n b1 b2) = C_int"
| "restype (GetAllScansSizes i) = C_int"
| "restype (GetAllScans i b) = C_int"
| "restype (WriteAllScansToFile i f h) = C_int"
| "restype (GetPDValues i ch n b) = C_int"
| "restype (GetPDReference i ch) = C_int"
| "restype (GetAUXStates i n b) = C_int"
| "restype (GetAUXCycleCounts i ch n b) = C_int"
| "restype RunUSBCommsTest = C_int"

text \<open>
  What one foreign call does, as far as the wrapper can observe it. \<open>raised\<close> is
  \<open>Some m\<close> when ctypes raises \<^verbatim>\<open>OSError(m)\<close> instead of returning (a fault inside
  the library). \<open>ret\<close> is the C return value. \<open>out_int1\<close>, \<open>out_int2\<close>,
  \<open>out_int3\<close>, \<open>out_bool\<close> and \<open>out_double\<close> are the values held after the call by
  the integers, the boolean and the double passed by reference. The \<open>buf_\<close> fields
  are the elements the library stores from the start of the buffers it is given.
\<close>

record reply =
  raised :: "string option"
  ret :: c_int
  out_int1 :: c_int
  out_int2 :: c_int
  out_int3 :: c_int
  out_bool :: bool
  out_double :: c_double
  buf_double1 :: "c_double list"
  buf_double2 :: "c_double list"
  buf_uint16 :: "c_uint16 list"
  buf_bool :: "bool list"
  buf_int :: "c_int list"
  buf_char :: string

text \<open>
  The environment of the wrapper. The GlazLib binary is closed: \<open>lib\<close> is any
  function from the calls made so far in the process (the current one last) to the
  reply of the current one, so the library may keep any state and answer anything.
  \<open>utf8_decode\<close> is \<^verbatim>\<open>bytes.decode('utf-8')\<close>: \<open>Inr\<close> the text, or \<open>Inl\<close> the reason
  of the \<^verbatim>\<open>UnicodeDecodeError\<close>. The remaining fields are the parts of \<^verbatim>\<open>os\<close> and
  \<^verbatim>\<open>os.path\<close> that \<^verbatim>\<open>utils.py\<close> and \<^verbatim>\<open>__init__\<close> use; \<open>pkg_dir\<close> is
  \<^verbatim>\<open>os.path.dirname(os.path.abspath(__file__))\<close>.
\<close>

record env =
  lib :: "native_call list \<Rightarrow> reply"
  utf8_decode :: "string \<Rightarrow> string + string"
  isfile :: "string \<Rightarrow> bool"
  path_join :: "string \<Rightarrow> string \<Rightarrow> string"
  path_dirname :: "string \<Rightarrow> string"
  pkg_dir :: string
  getcwd :: string

section \<open>Configuration files (\<^verbatim>\<open>utils.py\<close>)\<close>

text \<open>
  The exceptions that can leave a function of the package. Output printed with
  \<^verbatim>\<open>print\<close> is not modelled. Memory is unbounded: allocating a ctypes array always
  succeeds.
\<close>

datatype exn =
    RuntimeError string
  | FileNotFoundError string
  | UnicodeDecodeError string
  | OSError string
  | IndexError
  | ValueError

fun str_exn :: "exn \<Rightarrow> string" where
  "str_exn (RuntimeError m) = m"
| "str_exn (FileNotFoundError m) = m"
| "str_exn (UnicodeDecodeError m) = m"
| "str_exn (OSError m) = m"
| "str_exn IndexError = ''invalid index''"
| "str_exn ValueError = ''cannot reshape array''"

text \<open>\<^verbatim>\<open>str.lower\<close> on the ASCII letters, and \<^verbatim>\<open>str.endswith\<close>.\<close>

definition lower_char :: "char \<Rightarrow> char" where
  "lower_char c =
     (case map_of (zip ''ABCDEFGHIJKLMNOPQRSTUVWXYZ'' ''abcdefghijklmnopqrstuvwxyz'') c of
        Some l \<Rightarrow> l
      | None \<Rightarrow> c)"

definition lower :: "string \<Rightarrow> string" where
  "lower s = map lower_char s"

definition endswith :: "string \<Rightarrow> string \<Rightarrow> bool" where
  "endswith s suffix = (length suffix \<le> length s \<and> drop (length s - length suffix) s = suffix)"

text \<open>\<^verbatim>\<open>', '.join(names)\<close>.\<close>

fun join_comma :: "string list \<Rightarrow> string" where
  "join_comma [] = []"
| "join_comma [x] = x"
| "join_comma (x # y # ys) = x @ '', '' @ join_comma (y # ys)"

definition default_search_dirs :: "env \<Rightarrow> string list" where
  "default_search_dirs E =
     [path_join E (path_dirname E (pkg_dir E)) ''configs'', pkg_dir E, getcwd E]"

text \<open>The loop over the directories: the first directory that holds the file wins.\<close>

fun find_in_dirs :: "env \<Rightarrow> string \<Rightarrow> string list \<Rightarrow> string option" where
  "find_in_dirs E config [] = None"
| "find_in_dirs E config (directory # rest) =
     (let filepath = path_join E directory config
      in if isfile E filepath then Some filepath else find_in_dirs E config rest)"

text \<open>The outer loop over the default names, each tried in every directory.\<close>

fun find_default :: "env \<Rightarrow> string list \<Rightarrow> string list \<Rightarrow> string option" where
  "find_default E search_dirs [] = None"
| "find_default E search_dirs (config # rest) =
     (case find_in_dirs E config search_dirs of
        Some filepath \<Rightarrow> Some filepath
      | None \<Rightarrow> find_default E search_dirs rest)"

definition find_config_file :: "env \<Rightarrow> string option \<Rightarrow> string list option \<Rightarrow> exn + string" where
  "find_config_file E config_name search_dirs =
     (let dirs = (case search_dirs of None \<Rightarrow> default_search_dirs E | Some ds \<Rightarrow> ds)
      in case config_name of
           None \<Rightarrow>
             (let default_configs = [''single_spectrometer.xml'', ''double_spectrometer.xml'']
              in case find_default E dirs default_configs of
                   Some filepath \<Rightarrow> Inr filepath
                 | None \<Rightarrow>
                     Inl (FileNotFoundError
                       (''Could not find default configuration files: ''
                          @ join_comma default_configs)))
         | Some name \<Rightarrow>
             (let name' = (if \<not> endswith (lower name) ''.xml'' then name @ ''.xml'' else name)
              in case find_in_dirs E name' dirs of
                   Some filepath \<Rightarrow> Inr filepath
                 | None \<Rightarrow>
                     Inl (FileNotFoundError (''Could not find configuration file: '' @ name'))))"

section \<open>The session object (\<^verbatim>\<open>wrapper.py\<close>)\<close>

text \<open>
  A \<^verbatim>\<open>GlazLib\<close> object has one attribute, \<^verbatim>\<open>_initialized\<close>. \<open>calls\<close> is the
  sequence of foreign calls made so far, oldest first.
\<close>

record state =
  initialized :: bool
  calls :: "native_call list"

text \<open>
  A foreign call through ctypes: the call is recorded, the library answers, and the
  Python value of the call is \<^verbatim>\<open>None\<close> for a \<^verbatim>\<open>restype\<close> of \<^verbatim>\<open>None\<close> and the
  signed return value otherwise.
\<close>

definition foreign :: "env \<Rightarrow> native_call \<Rightarrow> state \<Rightarrow> (exn + int option \<times> reply) \<times> state" where
  "foreign E c s =
     (let tr = calls s @ [c]; r = lib E tr; s1 = s\<lparr>calls := tr\<rparr>
      in case raised r of
           Some m \<Rightarrow> (Inl (OSError m), s1)
         | None \<Rightarrow>
             (Inr (case restype c of C_int \<Rightarrow> Some (sint (ret r)) | C_void \<Rightarrow> None, r), s1))"

text \<open>
  A ctypes array of \<open>n\<close> elements starts zeroed; the library stores \<open>written\<close> from
  its start (stores past the end are not modelled).
\<close>

definition store :: "nat \<Rightarrow> 'a \<Rightarrow> 'a list \<Rightarrow> 'a list" where
  "store n zero written = take n written @ replicate (n - length written) zero"

text \<open>\<^verbatim>\<open>buffer.value\<close> of a character buffer: the bytes before the first NUL.\<close>

definition c_string_value :: "string \<Rightarrow> string" where
  "c_string_value buffer = takeWhile (\<lambda>c. c \<noteq> CHR 0x00) buffer"

definition get_last_error_message :: "env \<Rightarrow> state \<Rightarrow> (exn + string) \<times> state" where
  "get_last_error_message E s =
     (let buffer_size = 1024
      in case foreign E (GetLastErrorMessage buffer_size) s of
           (Inl e, s1) \<Rightarrow> (Inl e, s1)
         | (Inr (status, r), s1) \<Rightarrow>
             (let buffer = store buffer_size (CHR 0x00) (buf_char r)
              in case utf8_decode E (c_string_value buffer) of
                   Inl why \<Rightarrow> (Inl (UnicodeDecodeError why), s1)
                 | Inr text \<Rightarrow> (Inr text, s1)))"

text \<open>
  The two lines every failed status check runs:
  \<^verbatim>\<open>error_msg = self.get_last_error_message(); raise RuntimeError(f"...{error_msg}")\<close>.
\<close>

definition raise_last_error :: "env \<Rightarrow> string \<Rightarrow> state \<Rightarrow> (exn + 'a) \<times> state" where
  "raise_last_error E what s =
     (case get_last_error_message E s of
        (Inl e, s1) \<Rightarrow> (Inl e, s1)
      | (Inr error_msg, s1) \<Rightarrow> (Inl (RuntimeError (what @ error_msg)), s1))"

text \<open>
  The pattern nearly every method consists of:
  \<^verbatim>\<open>status = lib._lib.f(...); if status != lib.ERROR_NONE: <the two lines above>\<close>.
  On success the reply is handed on, for the methods that read out-parameters.
\<close>

definition status_call :: "env \<Rightarrow> native_call \<Rightarrow> string \<Rightarrow> state \<Rightarrow> (exn + reply) \<times> state" where
  "status_call E c what s =
     (case foreign E c s of
        (Inl e, s1) \<Rightarrow> (Inl e, s1)
      | (Inr (status, r), s1) \<Rightarrow>
          if status \<noteq> Some ERROR_NONE then raise_last_error E what s1 else (Inr r, s1))"

text \<open>A method that returns \<^verbatim>\<open>None\<close> after its status check.\<close>

definition returning_none :: "(exn + reply) \<times> state \<Rightarrow> (exn + unit) \<times> state" where
  "returning_none x = (case x of (Inl e, s1) \<Rightarrow> (Inl e, s1) | (Inr r, s1) \<Rightarrow> (Inr (), s1))"

subsection \<open>Opening and closing\<close>

text \<open>
  \<^verbatim>\<open>__init__\<close>: the body of the \<^verbatim>\<open>try\<close> block first, then the handler, which lets
  \<^verbatim>\<open>RuntimeError\<close> and \<^verbatim>\<open>FileNotFoundError\<close> through and wraps anything else.
\<close>

definition resolve_config :: "env \<Rightarrow> string option \<Rightarrow> exn + string option" where
  "resolve_config E config_file =
     (case config_file of
        Some f \<Rightarrow>
          if isfile E f then Inr (Some f)
          else (case find_config_file E (Some f) None of
                  Inl e \<Rightarrow> Inl e
                | Inr filepath \<Rightarrow> Inr (Some filepath))
      | None \<Rightarrow>
          (case find_config_file E None None of
             Inl (FileNotFoundError m) \<Rightarrow> Inr None
           | Inl e \<Rightarrow> Inl e
           | Inr filepath \<Rightarrow> Inr (Some filepath)))"

definition init_body ::
  "env \<Rightarrow> string option \<Rightarrow> int \<Rightarrow> bool \<Rightarrow> bool \<Rightarrow> state \<Rightarrow> (exn + unit) \<times> state" where
  "init_body E config_file device_type use_defaults allow_demo s =
     (case resolve_config E config_file of
        Inl e \<Rightarrow> (Inl e, s)
      | Inr (Some config_path) \<Rightarrow>
          (case status_call E (InitialiseSession config_path)
                  ''Failed to initialize GlazLib session with config file: '' s of
             (Inl e, s1) \<Rightarrow> (Inl e, s1)
           | (Inr r, s1) \<Rightarrow> (Inr (), s1\<lparr>initialized := True\<rparr>))
      | Inr None \<Rightarrow>
          (case status_call E (InitialiseSingleDeviceSession device_type use_defaults allow_demo)
                  ''Failed to initialize GlazLib session with device type: '' s of
             (Inl e, s1) \<Rightarrow> (Inl e, s1)
           | (Inr r, s1) \<Rightarrow> (Inr (), s1\<lparr>initialized := True\<rparr>)))"

definition init ::
  "env \<Rightarrow> string option \<Rightarrow> int \<Rightarrow> bool \<Rightarrow> bool \<Rightarrow> state \<Rightarrow> (exn + unit) \<times> state" where
  "init E config_file device_type use_defaults allow_demo s =
     (case init_body E config_file device_type use_defaults allow_demo (s\<lparr>initialized := False\<rparr>) of
        (Inr u, s1) \<Rightarrow> (Inr u, s1)
      | (Inl e, s1) \<Rightarrow>
          (case e of
             RuntimeError m \<Rightarrow> (Inl e, s1)
           | FileNotFoundError m \<Rightarrow> (Inl e, s1)
           | _ \<Rightarrow> (Inl (RuntimeError (''Failed to initialize GlazLib session: '' @ str_exn e)), s1)))"

text \<open>
  \<^verbatim>\<open>close\<close>. The \<^verbatim>\<open>try\<close> block covers the foreign call and the status check; the
  handler clears the flag again and re-raises a \<^verbatim>\<open>RuntimeError\<close> only.
\<close>

definition close_handler :: "exn \<Rightarrow> state \<Rightarrow> (exn + unit) \<times> state" where
  "close_handler e s =
     (let s1 = s\<lparr>initialized := False\<rparr>
      in case e of RuntimeError m \<Rightarrow> (Inl e, s1) | _ \<Rightarrow> (Inr (), s1))"

definition close :: "env \<Rightarrow> state \<Rightarrow> (exn + unit) \<times> state" where
  "close E s =
     (if \<not> initialized s then (Inr (), s)
      else case foreign E CloseSession s of
             (Inl e, s1) \<Rightarrow> close_handler e s1
           | (Inr (status, r), s1) \<Rightarrow>
               (let s2 = s1\<lparr>initialized := False\<rparr>
                in if status \<noteq> Some ERROR_NONE then
                     (case get_last_error_message E s2 of
                        (Inl e, s3) \<Rightarrow> close_handler e s3
                      | (Inr error_msg, s3) \<Rightarrow>
                          if status \<notin> set [Some ERROR_NOT_INITIALISED] then
                            close_handler
                              (RuntimeError (''Failed to close GlazLib session: '' @ error_msg)) s3
                          else (Inr (), s3))
                   else (Inr (), s2)))"

text \<open>
  \<^verbatim>\<open>__del__\<close> calls \<^verbatim>\<open>close\<close>; an exception that leaves a finaliser is reported by
  the interpreter and goes no further.
\<close>

definition del :: "env \<Rightarrow> state \<Rightarrow> state" where
  "del E s = snd (close E s)"

subsection \<open>Session-wide calls\<close>

definition get_version :: "env \<Rightarrow> state \<Rightarrow> (exn + int \<times> int) \<times> state" where
  "get_version E s =
     (case foreign E GetVersion s of
        (Inl e, s1) \<Rightarrow> (Inl e, s1)
      | (Inr (status, r), s1) \<Rightarrow> (Inr (sint (out_int1 r), sint (out_int2 r)), s1))"

definition get_usb_parameters :: "env \<Rightarrow> state \<Rightarrow> (exn + (string \<rightharpoonup> int)) \<times> state" where
  "get_usb_parameters E s =
     (case foreign E GetUSBParameters s of
        (Inl e, s1) \<Rightarrow> (Inl e, s1)
      | (Inr (status, r), s1) \<Rightarrow>
          (Inr [''timeout'' \<mapsto> sint (out_int1 r),
                ''bulk_size'' \<mapsto> sint (out_int2 r),
                ''queue_size'' \<mapsto> sint (out_int3 r)], s1))"

definition set_usb_parameters :: "env \<Rightarrow> int \<Rightarrow> int \<Rightarrow> int \<Rightarrow> state \<Rightarrow> (exn + unit) \<times> state" where
  "set_usb_parameters E timeout bulk_size queue_size s =
     returning_none
       (status_call E (SetUSBParameters timeout bulk_size queue_size)
          ''Failed to set USB parameters: '' s)"

definition enable_data_stream_log :: "env \<Rightarrow> bool \<Rightarrow> state \<Rightarrow> (exn + unit) \<times> state" where
  "enable_data_stream_log E enable s =
     (case foreign E (EnableDataStreamLog enable) s of
        (Inl e, s1) \<Rightarrow> (Inl e, s1)
      | (Inr (status, r), s1) \<Rightarrow> (Inr (), s1))"

definition reset_all_devices :: "env \<Rightarrow> state \<Rightarrow> (exn + unit) \<times> state" where
  "reset_all_devices E s =
     (case foreign E ResetAllDevices s of
        (Inl e, s1) \<Rightarrow> (Inl e, s1)
      | (Inr (status, r), s1) \<Rightarrow> (Inr (), s1))"

definition reset_all_ports :: "env \<Rightarrow> state \<Rightarrow> (exn + unit) \<times> state" where
  "reset_all_ports E s =
     (case foreign E ResetAllPorts s of
        (Inl e, s1) \<Rightarrow> (Inl e, s1)
      | (Inr (status, r), s1) \<Rightarrow> (Inr (), s1))"

subsection \<open>Configuration\<close>

definition set_test_mode :: "env \<Rightarrow> int \<Rightarrow> state \<Rightarrow> (exn + unit) \<times> state" where
  "set_test_mode E mode s =
     returning_none (status_call E (SetTestMode mode) ''Failed to set test mode: '' s)"

definition set_wavelengths :: "env \<Rightarrow> c_double \<Rightarrow> c_double \<Rightarrow> state \<Rightarrow> (exn + unit) \<times> state" where
  "set_wavelengths E min_wavelength max_wavelength s =
     returning_none (status_call E (SetWavelengths min_wavelength max_wavelength) ''Failed to set wavelength range: '' s)"

definition set_hardware_averaging :: "env \<Rightarrow> int \<Rightarrow> state \<Rightarrow> (exn + unit) \<times> state" where
  "set_hardware_averaging E averaging s =
     returning_none (status_call E (SetHardwareAveraging averaging) ''Failed to set hardware averaging: '' s)"

definition set_resolution :: "env \<Rightarrow> int \<Rightarrow> state \<Rightarrow> (exn + unit) \<times> state" where
  "set_resolution E resolution s =
     returning_none (status_call E (SetResolution resolution) ''Failed to set resolution: '' s)"

definition set_scan_count :: "env \<Rightarrow> int \<Rightarrow> state \<Rightarrow> (exn + unit) \<times> state" where
  "set_scan_count E count s =
     returning_none (status_call E (SetScanCount count) ''Failed to set scan count: '' s)"

definition set_scan_clock_speed :: "env \<Rightarrow> int \<Rightarrow> state \<Rightarrow> (exn + unit) \<times> state" where
  "set_scan_clock_speed E speed s =
     returning_none (status_call E (SetScanClockSpeed speed) ''Failed to set scan clock speed: '' s)"

definition set_adc_gain :: "env \<Rightarrow> int \<Rightarrow> state \<Rightarrow> (exn + unit) \<times> state" where
  "set_adc_gain E gain s =
     returning_none (status_call E (SetADCGain gain) ''Failed to set ADC gain: '' s)"

definition set_trigger_delay :: "env \<Rightarrow> int \<Rightarrow> state \<Rightarrow> (exn + unit) \<times> state" where
  "set_trigger_delay E delay s =
     returning_none (status_call E (SetTriggerDelay delay) ''Failed to set trigger delay: '' s)"

definition set_trigger_mode :: "env \<Rightarrow> int \<Rightarrow> state \<Rightarrow> (exn + unit) \<times> state" where
  "set_trigger_mode E mode s =
     returning_none (status_call E (SetTriggerMode mode) ''Failed to set trigger mode: '' s)"

definition set_internal_trigger_frequency :: "env \<Rightarrow> c_double \<Rightarrow> state \<Rightarrow> (exn + unit) \<times> state" where
  "set_internal_trigger_frequency E frequency s =
     returning_none (status_call E (SetInternalTriggerFrequency frequency) ''Failed to set internal trigger frequency: '' s)"

definition set_integration_mode :: "env \<Rightarrow> int \<Rightarrow> state \<Rightarrow> (exn + unit) \<times> state" where
  "set_integration_mode E mode s =
     returning_none (status_call E (SetIntegrationMode mode) ''Failed to set integration mode: '' s)"

definition set_integration_time :: "env \<Rightarrow> int \<Rightarrow> state \<Rightarrow> (exn + unit) \<times> state" where
  "set_integration_time E time s =
     returning_none (status_call E (SetIntegrationTime time) ''Failed to set integration time: '' s)"

definition set_sync_out_mode :: "env \<Rightarrow> int \<Rightarrow> state \<Rightarrow> (exn + unit) \<times> state" where
  "set_sync_out_mode E mode s =
     returning_none (status_call E (SetSyncOutMode mode) ''Failed to set sync output mode: '' s)"

definition set_sync_out_polarity :: "env \<Rightarrow> int \<Rightarrow> state \<Rightarrow> (exn + unit) \<times> state" where
  "set_sync_out_polarity E polarity s =
     returning_none (status_call E (SetSyncOutPolarity polarity) ''Failed to set sync output polarity: '' s)"

definition set_aux_out_mode :: "env \<Rightarrow> int \<Rightarrow> state \<Rightarrow> (exn + unit) \<times> state" where
  "set_aux_out_mode E mode s =
     returning_none (status_call E (SetAuxOutMode mode) ''Failed to set auxiliary output mode: '' s)"

definition set_aux_out_polarity :: "env \<Rightarrow> int \<Rightarrow> state \<Rightarrow> (exn + unit) \<times> state" where
  "set_aux_out_polarity E polarity s =
     returning_none (status_call E (SetAuxOutPolarity polarity) ''Failed to set auxiliary output polarity: '' s)"

definition set_out_cycle_count :: "env \<Rightarrow> int \<Rightarrow> state \<Rightarrow> (exn + unit) \<times> state" where
  "set_out_cycle_count E count s =
     returning_none (status_call E (SetOutCycleCount count) ''Failed to set output cycle count: '' s)"

definition set_timeout :: "env \<Rightarrow> int \<Rightarrow> state \<Rightarrow> (exn + unit) \<times> state" where
  "set_timeout E timeout s =
     returning_none (status_call E (SetTimeout timeout) ''Failed to set timeout: '' s)"

subsection \<open>Acquisition\<close>

definition capture_background :: "env \<Rightarrow> int \<Rightarrow> state \<Rightarrow> (exn + unit) \<times> state" where
  "capture_background E count s =
     returning_none (status_call E (CaptureBackground count) ''Failed to capture background: '' s)"

definition run_measurement :: "env \<Rightarrow> state \<Rightarrow> (exn + unit) \<times> state" where
  "run_measurement E s =
     returning_none (status_call E RunMeasurement ''Failed to run measurement: '' s)"

definition start_measurement :: "env \<Rightarrow> state \<Rightarrow> (exn + unit) \<times> state" where
  "start_measurement E s =
     returning_none (status_call E StartMeasurement ''Failed to start measurement: '' s)"

definition is_measurement_done :: "env \<Rightarrow> state \<Rightarrow> (exn + bool) \<times> state" where
  "is_measurement_done E s =
     (case status_call E IsMeasurementDone ''Failed to check if measurement is done: '' s of
        (Inl e, s1) \<Rightarrow> (Inl e, s1)
      | (Inr r, s1) \<Rightarrow> (Inr (out_bool r), s1))"

subsection \<open>Results\<close>

text \<open>
  A numpy array: its element type (the constructor), its shape, and its elements in
  row-major order. \<^verbatim>\<open>np.array\<close> of a list of Python floats, the empty list
  included, is a one-dimensional \<^verbatim>\<open>float64\<close> array.
\<close>

datatype ndarray =
    Float64 "nat list" "c_double list"
  | UInt16 "nat list" "c_uint16 list"

definition np_array :: "c_double list \<Rightarrow> ndarray" where
  "np_array xs = Float64 [length xs] xs"

definition np_array_uint16 :: "c_uint16 list \<Rightarrow> ndarray" where
  "np_array_uint16 xs = UInt16 [length xs] xs"

fun reshape :: "ndarray \<Rightarrow> nat list \<Rightarrow> exn + ndarray" where
  "reshape (Float64 old xs) shape =
     (if prod_list shape = length xs then Inr (Float64 shape xs) else Inl ValueError)"
| "reshape (UInt16 old xs) shape =
     (if prod_list shape = length xs then Inr (UInt16 shape xs) else Inl ValueError)"

text \<open>
  \<^verbatim>\<open>[data[i] for i in range(k)]\<close> on a ctypes array: an index past the end raises
  \<^verbatim>\<open>IndexError\<close>.
\<close>

definition read_range :: "'a list \<Rightarrow> int \<Rightarrow> exn + 'a list" where
  "read_range data k = (if int (length data) < k then Inl IndexError else Inr (take (nat k) data))"

definition get_result :: "env \<Rightarrow> int \<Rightarrow> state \<Rightarrow> (exn + ndarray \<times> int) \<times> state" where
  "get_result E index s =
     (case status_call E (GetResult index 0 None) ''Failed to get result size: '' s of
        (Inl e, s1) \<Rightarrow> (Inl e, s1)
      | (Inr r, s1) \<Rightarrow>
          (let size = out_int1 r
           in if sint size \<le> 0 then (Inr (np_array [], 0), s1)
              else
                (let n = nat (sint size)
                 in case status_call E (GetResult index size (Some n)) ''Failed to get result data: '' s1 of
                      (Inl e, s2) \<Rightarrow> (Inl e, s2)
                    | (Inr r2, s2) \<Rightarrow>
                        (let data = store n 0 (buf_double1 r2); size = out_int1 r2
                         in case read_range data (sint size) of
                              Inl e \<Rightarrow> (Inl e, s2)
                            | Inr xs \<Rightarrow> (Inr (np_array xs, sint size), s2)))))"

definition get_complex_result ::
  "env \<Rightarrow> int \<Rightarrow> state \<Rightarrow> (exn + ndarray \<times> ndarray \<times> int) \<times> state" where
  "get_complex_result E index s =
     (case status_call E (GetComplexResult index 0 None None) ''Failed to get complex result size: '' s of
        (Inl e, s1) \<Rightarrow> (Inl e, s1)
      | (Inr r, s1) \<Rightarrow>
          (let size = out_int1 r
           in if sint size \<le> 0 then (Inr (np_array [], np_array [], 0), s1)
              else
                (let n = nat (sint size)
                 in case status_call E (GetComplexResult index size (Some n) (Some n)) ''Failed to get complex result data: '' s1 of
                      (Inl e, s2) \<Rightarrow> (Inl e, s2)
                    | (Inr r2, s2) \<Rightarrow>
                        (let real_data = store n 0 (buf_double1 r2);
                             imag_data = store n 0 (buf_double2 r2);
                             size = out_int1 r2
                         in case read_range real_data (sint size) of
                              Inl e \<Rightarrow> (Inl e, s2)
                            | Inr re \<Rightarrow>
                                (case read_range imag_data (sint size) of
                                   Inl e \<Rightarrow> (Inl e, s2)
                                 | Inr im \<Rightarrow> (Inr (np_array re, np_array im, sint size), s2))))))"

definition get_time_stamp :: "env \<Rightarrow> int \<Rightarrow> int \<Rightarrow> state \<Rightarrow> (exn + c_double) \<times> state" where
  "get_time_stamp E index channel s =
     (case status_call E (GetTimeStamp index channel) ''Failed to get time stamp: '' s of
        (Inl e, s1) \<Rightarrow> (Inl e, s1)
      | (Inr r, s1) \<Rightarrow> (Inr (out_double r), s1))"

definition get_scan :: "env \<Rightarrow> int \<Rightarrow> int \<Rightarrow> state \<Rightarrow> (exn + ndarray \<times> int) \<times> state" where
  "get_scan E index scan_index s =
     (case status_call E (GetScan index scan_index 0 None) ''Failed to get scan size: '' s of
        (Inl e, s1) \<Rightarrow> (Inl e, s1)
      | (Inr r, s1) \<Rightarrow>
          (let size = out_int1 r
           in if sint size \<le> 0 then (Inr (np_array [], 0), s1)
              else
                (let n = nat (sint size)
                 in case status_call E (GetScan index scan_index size (Some n)) ''Failed to get scan data: '' s1 of
                      (Inl e, s2) \<Rightarrow> (Inl e, s2)
                    | (Inr r2, s2) \<Rightarrow>
                        (let data = store n 0 (buf_double1 r2); size = out_int1 r2
                         in case read_range data (sint size) of
                              Inl e \<Rightarrow> (Inl e, s2)
                            | Inr xs \<Rightarrow> (Inr (np_array xs, sint size), s2)))))"

definition get_complex_scan ::
  "env \<Rightarrow> int \<Rightarrow> int \<Rightarrow> state \<Rightarrow> (exn + ndarray \<times> ndarray \<times> int) \<times> state" where
  "get_complex_scan E index scan_index s =
     (case status_call E (GetComplexScan index scan_index 0 None None) ''Failed to get complex scan size: '' s of
        (Inl e, s1) \<Rightarrow> (Inl e, s1)
      | (Inr r, s1) \<Rightarrow>
          (let size = out_int1 r
           in if sint size \<le> 0 then (Inr (np_array [], np_array [], 0), s1)
              else
                (let n = nat (sint size)
                 in case status_call E (GetComplexScan index scan_index size (Some n) (Some n)) ''Failed to get complex scan data: '' s1 of
                      (Inl e, s2) \<Rightarrow> (Inl e, s2)
                    | (Inr r2, s2) \<Rightarrow>
                        (let real_data = store n 0 (buf_double1 r2);
                             imag_data = store n 0 (buf_double2 r2);
                             size = out_int1 r2
                         in case read_range real_data (sint size) of
                              Inl e \<Rightarrow> (Inl e, s2)
                            | Inr re \<Rightarrow>
                                (case read_range imag_data (sint size) of
                                   Inl e \<Rightarrow> (Inl e, s2)
                                 | Inr im \<Rightarrow> (Inr (np_array re, np_array im, sint size), s2))))))"

definition get_all_scans_sizes :: "env \<Rightarrow> int \<Rightarrow> state \<Rightarrow> (exn + int \<times> int) \<times> state" where
  "get_all_scans_sizes E index s =
     (case status_call E (GetAllScansSizes index) ''Failed to get all scans sizes: '' s of
        (Inl e, s1) \<Rightarrow> (Inl e, s1)
      | (Inr r, s1) \<Rightarrow> (Inr (sint (out_int1 r), sint (out_int2 r)), s1))"

definition get_all_scans :: "env \<Rightarrow> int \<Rightarrow> state \<Rightarrow> (exn + ndarray) \<times> state" where
  "get_all_scans E index s =
     (case get_all_scans_sizes E index s of
        (Inl e, s1) \<Rightarrow> (Inl e, s1)
      | (Inr (num_scans, pixels_per_scan), s1) \<Rightarrow>
          if num_scans \<le> 0 \<or> pixels_per_scan \<le> 0 then (Inr (np_array []), s1)
          else
            (let total_size = num_scans * pixels_per_scan; n = nat total_size
             in case status_call E (GetAllScans index (Some n)) ''Failed to get all scans: '' s1 of
                  (Inl e, s2) \<Rightarrow> (Inl e, s2)
                | (Inr r2, s2) \<Rightarrow>
                    (let data = store n 0 (buf_uint16 r2)
                     in case read_range data total_size of
                          Inl e \<Rightarrow> (Inl e, s2)
                        | Inr xs \<Rightarrow>
                            (case reshape (np_array_uint16 xs)
                                    [nat num_scans, nat pixels_per_scan] of
                               Inl e \<Rightarrow> (Inl e, s2)
                             | Inr array_data \<Rightarrow> (Inr array_data, s2)))))"

definition write_all_scans_to_file ::
  "env \<Rightarrow> int \<Rightarrow> string \<Rightarrow> bool \<Rightarrow> state \<Rightarrow> (exn + unit) \<times> state" where
  "write_all_scans_to_file E index filename include_header s =
     returning_none
       (status_call E (WriteAllScansToFile index filename include_header)
          ''Failed to write all scans to file: '' s)"

definition get_pd_values :: "env \<Rightarrow> int \<Rightarrow> int \<Rightarrow> state \<Rightarrow> (exn + ndarray \<times> int) \<times> state" where
  "get_pd_values E index channel s =
     (case status_call E (GetPDValues index channel 0 None) ''Failed to get photodiode values size: '' s of
        (Inl e, s1) \<Rightarrow> (Inl e, s1)
      | (Inr r, s1) \<Rightarrow>
          (let size = out_int1 r
           in if sint size \<le> 0 then (Inr (np_array [], 0), s1)
              else
                (let n = nat (sint size)
                 in case status_call E (GetPDValues index channel size (Some n)) ''Failed to get photodiode values: '' s1 of
                      (Inl e, s2) \<Rightarrow> (Inl e, s2)
                    | (Inr r2, s2) \<Rightarrow>
                        (let data = store n 0 (buf_double1 r2); size = out_int1 r2
                         in case read_range data (sint size) of
                              Inl e \<Rightarrow> (Inl e, s2)
                            | Inr xs \<Rightarrow> (Inr (np_array xs, sint size), s2)))))"

definition get_pd_reference :: "env \<Rightarrow> int \<Rightarrow> int \<Rightarrow> state \<Rightarrow> (exn + c_double) \<times> state" where
  "get_pd_reference E index channel s =
     (case status_call E (GetPDReference index channel) ''Failed to get photodiode reference: '' s of
        (Inl e, s1) \<Rightarrow> (Inl e, s1)
      | (Inr r, s1) \<Rightarrow> (Inr (out_double r), s1))"

definition get_aux_states :: "env \<Rightarrow> int \<Rightarrow> state \<Rightarrow> (exn + bool list \<times> int) \<times> state" where
  "get_aux_states E index s =
     (case status_call E (GetAUXStates index 0 None) ''Failed to get auxiliary states size: '' s of
        (Inl e, s1) \<Rightarrow> (Inl e, s1)
      | (Inr r, s1) \<Rightarrow>
          (let size = out_int1 r
           in if sint size \<le> 0 then (Inr ([], 0), s1)
              else
                (let n = nat (sint size)
                 in case status_call E (GetAUXStates index size (Some n))
                           ''Failed to get auxiliary states: '' s1 of
                      (Inl e, s2) \<Rightarrow> (Inl e, s2)
                    | (Inr r2, s2) \<Rightarrow>
                        (let states = store n False (buf_bool r2); size = out_int1 r2
                         in case read_range states (sint size) of
                              Inl e \<Rightarrow> (Inl e, s2)
                            | Inr xs \<Rightarrow> (Inr (xs, sint size), s2)))))"

definition get_aux_cycle_counts ::
  "env \<Rightarrow> int \<Rightarrow> int \<Rightarrow> state \<Rightarrow> (exn + int list \<times> int) \<times> state" where
  "get_aux_cycle_counts E index channel s =
     (case status_call E (GetAUXCycleCounts index channel 0 None)
             ''Failed to get auxiliary cycle counts size: '' s of
        (Inl e, s1) \<Rightarrow> (Inl e, s1)
      | (Inr r, s1) \<Rightarrow>
          (let size = out_int1 r
           in if sint size \<le> 0 then (Inr ([], 0), s1)
              else
                (let n = nat (sint size)
                 in case status_call E (GetAUXCycleCounts index channel size (Some n))
                           ''Failed to get auxiliary cycle counts: '' s1 of
                      (Inl e, s2) \<Rightarrow> (Inl e, s2)
                    | (Inr r2, s2) \<Rightarrow>
                        (let counts = store n 0 (buf_int r2); size = out_int1 r2
                         in case read_range counts (sint size) of
                              Inl e \<Rightarrow> (Inl e, s2)
                            | Inr xs \<Rightarrow> (Inr (map sint xs, sint size), s2)))))"

definition run_usb_comms_test :: "env \<Rightarrow> state \<Rightarrow> (exn + unit) \<times> state" where
  "run_usb_comms_test E s =
     returning_none (status_call E RunUSBCommsTest ''USB communications test failed: '' s)"

section \<open>Calls on a session object\<close>

text \<open>
  One constructor for each method of \<^verbatim>\<open>GlazLib\<close> with its arguments, \<open>Init\<close> being
  \<^verbatim>\<open>__init__\<close>. \<open>call_method\<close> runs one and keeps what a caller that catches
  exceptions goes on with: the exception, if any, and the state.
\<close>

datatype (plugins only: code) method_call =
    Init "string option" int bool bool
  | Close
  | Get_version
  | Get_last_error_message
  | Get_usb_parameters
  | Set_usb_parameters int int int
  | Enable_data_stream_log bool
  | Reset_all_devices
  | Reset_all_ports
  | Set_test_mode int
  | Set_wavelengths c_double c_double
  | Set_hardware_averaging int
  | Set_resolution int
  | Set_scan_count int
  | Set_scan_clock_speed int
  | Set_adc_gain int
  | Set_trigger_delay int
  | Set_trigger_mode int
  | Set_internal_trigger_frequency c_double
  | Set_integration_mode int
  | Set_integration_time int
  | Set_sync_out_mode int
  | Set_sync_out_polarity int
  | Set_aux_out_mode int
  | Set_aux_out_polarity int
  | Set_out_cycle_count int
  | Set_timeout int
  | Capture_background int
  | Run_measurement
  | Start_measurement
  | Is_measurement_done
  | Get_result int
  | Get_complex_result int
  | Get_time_stamp int int
  | Get_scan int int
  | Get_complex_scan int int
  | Get_all_scans_sizes int
  | Get_all_scans int
  | Write_all_scans_to_file int string bool
  | Get_pd_values int int
  | Get_pd_reference int int
  | Get_aux_states int
  | Get_aux_cycle_counts int int
  | Run_usb_comms_test

definition outcome :: "(exn + 'a) \<times> state \<Rightarrow> exn option \<times> state" where
  "outcome x = (case x of (Inl e, s) \<Rightarrow> (Some e, s) | (Inr v, s) \<Rightarrow> (None, s))"

primrec call_method :: "env \<Rightarrow> method_call \<Rightarrow> state \<Rightarrow> exn option \<times> state" where
  "call_method E (Init cfg dt ud ad) = (\<lambda>s. outcome (init E cfg dt ud ad s))"
| "call_method E Close = (\<lambda>s. outcome (close E s))"
| "call_method E Get_version = (\<lambda>s. outcome (get_version E s))"
| "call_method E Get_last_error_message = (\<lambda>s. outcome (get_last_error_message E s))"
| "call_method E Get_usb_parameters = (\<lambda>s. outcome (get_usb_parameters E s))"
| "call_method E (Set_usb_parameters t b q) = (\<lambda>s. outcome (set_usb_parameters E t b q s))"
| "call_method E (Enable_data_stream_log en) = (\<lambda>s. outcome (enable_data_stream_log E en s))"
| "call_method E Reset_all_devices = (\<lambda>s. outcome (reset_all_devices E s))"
| "call_method E Reset_all_ports = (\<lambda>s. outcome (reset_all_ports E s))"
| "call_method E (Set_test_mode v) = (\<lambda>s. outcome (set_test_mode E v s))"
| "call_method E (Set_wavelengths lo hi) = (\<lambda>s. outcome (set_wavelengths E lo hi s))"
| "call_method E (Set_hardware_averaging v) = (\<lambda>s. outcome (set_hardware_averaging E v s))"
| "call_method E (Set_resolution v) = (\<lambda>s. outcome (set_resolution E v s))"
| "call_method E (Set_scan_count v) = (\<lambda>s. outcome (set_scan_count E v s))"
| "call_method E (Set_scan_clock_speed v) = (\<lambda>s. outcome (set_scan_clock_speed E v s))"
| "call_method E (Set_adc_gain v) = (\<lambda>s. outcome (set_adc_gain E v s))"
| "call_method E (Set_trigger_delay v) = (\<lambda>s. outcome (set_trigger_delay E v s))"
| "call_method E (Set_trigger_mode v) = (\<lambda>s. outcome (set_trigger_mode E v s))"
| "call_method E (Set_internal_trigger_frequency f) = (\<lambda>s. outcome (set_internal_trigger_frequency E f s))"
| "call_method E (Set_integration_mode v) = (\<lambda>s. outcome (set_integration_mode E v s))"
| "call_method E (Set_integration_time v) = (\<lambda>s. outcome (set_integration_time E v s))"
| "call_method E (Set_sync_out_mode v) = (\<lambda>s. outcome (set_sync_out_mode E v s))"
| "call_method E (Set_sync_out_polarity v) = (\<lambda>s. outcome (set_sync_out_polarity E v s))"
| "call_method E (Set_aux_out_mode v) = (\<lambda>s. outcome (set_aux_out_mode E v s))"
| "call_method E (Set_aux_out_polarity v) = (\<lambda>s. outcome (set_aux_out_polarity E v s))"
| "call_method E (Set_out_cycle_count v) = (\<lambda>s. outcome (set_out_cycle_count E v s))"
| "call_method E (Set_timeout v) = (\<lambda>s. outcome (set_timeout E v s))"
| "call_method E (Capture_background n) = (\<lambda>s. outcome (capture_background E n s))"
| "call_method E Run_measurement = (\<lambda>s. outcome (run_measurement E s))"
| "call_method E Start_measurement = (\<lambda>s. outcome (start_measurement E s))"
| "call_method E Is_measurement_done = (\<lambda>s. outcome (is_measurement_done E s))"
| "call_method E (Get_result i) = (\<lambda>s. outcome (get_result E i s))"
| "call_method E (Get_complex_result i) = (\<lambda>s. outcome (get_complex_result E i s))"
| "call_method E (Get_time_stamp i ch) = (\<lambda>s. outcome (get_time_stamp E i ch s))"
| "call_method E (Get_scan i j) = (\<lambda>s. outcome (get_scan E i j s))"
| "call_method E (Get_complex_scan i j) = (\<lambda>s. outcome (get_complex_scan E i j s))"
| "call_method E (Get_all_scans_sizes i) = (\<lambda>s. outcome (get_all_scans_sizes E i s))"
| "call_method E (Get_all_scans i) = (\<lambda>s. outcome (get_all_scans E i s))"
| "call_method E (Write_all_scans_to_file i f h) = (\<lambda>s. outcome (write_all_scans_to_file E i f h s))"
| "call_method E (Get_pd_values i ch) = (\<lambda>s. outcome (get_pd_values E i ch s))"
| "call_method E (Get_pd_reference i ch) = (\<lambda>s. outcome (get_pd_reference E i ch s))"
| "call_method E (Get_aux_states i) = (\<lambda>s. outcome (get_aux_states E i s))"
| "call_method E (Get_aux_cycle_counts i ch) = (\<lambda>s. outcome (get_aux_cycle_counts E i ch s))"
| "call_method E Run_usb_comms_test = (\<lambda>s. outcome (run_usb_comms_test E s))"

text \<open>The configuration setters: the methods named \<^verbatim>\<open>set_...\<close>.\<close>

primrec is_setter :: "method_call \<Rightarrow> bool" where
  "is_setter (Init cfg dt ud ad) = False"
| "is_setter Close = False"
| "is_setter Get_version = False"
| "is_setter Get_last_error_message = False"
| "is_setter Get_usb_parameters = False"
| "is_setter (Set_usb_parameters t b q) = True"
| "is_setter (Enable_data_stream_log en) = False"
| "is_setter Reset_all_devices = False"
| "is_setter Reset_all_ports = False"
| "is_setter (Set_test_mode v) = True"
| "is_setter (Set_wavelengths lo hi) = True"
| "is_setter (Set_hardware_averaging v) = True"
| "is_setter (Set_resolution v) = True"
| "is_setter (Set_scan_count v) = True"
| "is_setter (Set_scan_clock_speed v) = True"
| "is_setter (Set_adc_gain v) = True"
| "is_setter (Set_trigger_delay v) = True"
| "is_setter (Set_trigger_mode v) = True"
| "is_setter (Set_internal_trigger_frequency f) = True"
| "is_setter (Set_integration_mode v) = True"
| "is_setter (Set_integration_time v) = True"
| "is_setter (Set_sync_out_mode v) = True"
| "is_setter (Set_sync_out_polarity v) = True"
| "is_setter (Set_aux_out_mode v) = True"
| "is_setter (Set_aux_out_polarity v) = True"
| "is_setter (Set_out_cycle_count v) = True"
| "is_setter (Set_timeout v) = True"
| "is_setter (Capture_background n) = False"
| "is_setter Run_measurement = False"
| "is_setter Start_measurement = False"
| "is_setter Is_measurement_done = False"
| "is_setter (Get_result i) = False"
| "is_setter (Get_complex_result i) = False"
| "is_setter (Get_time_stamp i ch) = False"
| "is_setter (Get_scan i j) = False"
| "is_setter (Get_complex_scan i j) = False"
| "is_setter (Get_all_scans_sizes i) = False"
| "is_setter (Get_all_scans i) = False"
| "is_setter (Write_all_scans_to_file i f h) = False"
| "is_setter (Get_pd_values i ch) = False"
| "is_setter (Get_pd_reference i ch) = False"
| "is_setter (Get_aux_states i) = False"
| "is_setter (Get_aux_cycle_counts i ch) = False"
| "is_setter Run_usb_comms_test = False"

text \<open>The acquisition methods.\<close>

primrec is_acquisition :: "method_call \<Rightarrow> bool" where
  "is_acquisition (Init cfg dt ud ad) = False"
| "is_acquisition Close = False"
| "is_acquisition Get_version = False"
| "is_acquisition Get_last_error_message = False"
| "is_acquisition Get_usb_parameters = False"
| "is_acquisition (Set_usb_parameters t b q) = False"
| "is_acquisition (Enable_data_stream_log en) = False"
| "is_acquisition Reset_all_devices = False"
| "is_acquisition Reset_all_ports = False"
| "is_acquisition (Set_test_mode v) = False"
| "is_acquisition (Set_wavelengths lo hi) = False"
| "is_acquisition (Set_hardware_averaging v) = False"
| "is_acquisition (Set_resolution v) = False"
| "is_acquisition (Set_scan_count v) = False"
| "is_acquisition (Set_scan_clock_speed v) = False"
| "is_acquisition (Set_adc_gain v) = False"
| "is_acquisition (Set_trigger_delay v) = False"
| "is_acquisition (Set_trigger_mode v) = False"
| "is_acquisition (Set_internal_trigger_frequency f) = False"
| "is_acquisition (Set_integration_mode v) = False"
| "is_acquisition (Set_integration_time v) = False"
| "is_acquisition (Set_sync_out_mode v) = False"
| "is_acquisition (Set_sync_out_polarity v) = False"
| "is_acquisition (Set_aux_out_mode v) = False"
| "is_acquisition (Set_aux_out_polarity v) = False"
| "is_acquisition (Set_out_cycle_count v) = False"
| "is_acquisition (Set_timeout v) = False"
| "is_acquisition (Capture_background n) = True"
| "is_acquisition Run_measurement = True"
| "is_acquisition Start_measurement = True"
| "is_acquisition Is_measurement_done = True"
| "is_acquisition (Get_result i) = False"
| "is_acquisition (Get_complex_result i) = False"
| "is_acquisition (Get_time_stamp i ch) = False"
| "is_acquisition (Get_scan i j) = False"
| "is_acquisition (Get_complex_scan i j) = False"
| "is_acquisition (Get_all_scans_sizes i) = False"
| "is_acquisition (Get_all_scans i) = False"
| "is_acquisition (Write_all_scans_to_file i f h) = False"
| "is_acquisition (Get_pd_values i ch) = False"
| "is_acquisition (Get_pd_reference i ch) = False"
| "is_acquisition (Get_aux_states i) = False"
| "is_acquisition (Get_aux_cycle_counts i ch) = False"
| "is_acquisition Run_usb_comms_test = False"

text \<open>\<^verbatim>\<open>__init__\<close>, which alone sets the flag.\<close>

primrec is_init :: "method_call \<Rightarrow> bool" where
  "is_init (Init cfg dt ud ad) = True"
| "is_init Close = False"
| "is_init Get_version = False"
| "is_init Get_last_error_message = False"
| "is_init Get_usb_parameters = False"
| "is_init (Set_usb_parameters t b q) = False"
| "is_init (Enable_data_stream_log en) = False"
| "is_init Reset_all_devices = False"
| "is_init Reset_all_ports = False"
| "is_init (Set_test_mode v) = False"
| "is_init (Set_wavelengths lo hi) = False"
| "is_init (Set_hardware_averaging v) = False"
| "is_init (Set_resolution v) = False"
| "is_init (Set_scan_count v) = False"
| "is_init (Set_scan_clock_speed v) = False"
| "is_init (Set_adc_gain v) = False"
| "is_init (Set_trigger_delay v) = False"
| "is_init (Set_trigger_mode v) = False"
| "is_init (Set_internal_trigger_frequency f) = False"
| "is_init (Set_integration_mode v) = False"
| "is_init (Set_integration_time v) = False"
| "is_init (Set_sync_out_mode v) = False"
| "is_init (Set_sync_out_polarity v) = False"
| "is_init (Set_aux_out_mode v) = False"
| "is_init (Set_aux_out_polarity v) = False"
| "is_init (Set_out_cycle_count v) = False"
| "is_init (Set_timeout v) = False"
| "is_init (Capture_background n) = False"
| "is_init Run_measurement = False"
| "is_init Start_measurement = False"
| "is_init Is_measurement_done = False"
| "is_init (Get_result i) = False"
| "is_init (Get_complex_result i) = False"
| "is_init (Get_time_stamp i ch) = False"
| "is_init (Get_scan i j) = False"
| "is_init (Get_complex_scan i j) = False"
| "is_init (Get_all_scans_sizes i) = False"
| "is_init (Get_all_scans i) = False"
| "is_init (Write_all_scans_to_file i f h) = False"
| "is_init (Get_pd_values i ch) = False"
| "is_init (Get_pd_reference i ch) = False"
| "is_init (Get_aux_states i) = False"
| "is_init (Get_aux_cycle_counts i ch) = False"
| "is_init Run_usb_comms_test = False"

section \<open>Notions the properties are stated with\<close>

text \<open>
  What \<^verbatim>\<open>get_last_error_message\<close> yields when its foreign call is the last call
  of \<open>tr\<close>: the decoded text of the 1024-byte buffer, or the exception.
\<close>

definition fetched :: "env \<Rightarrow> native_call list \<Rightarrow> exn + string" where
  "fetched E tr =
     (case raised (lib E tr) of
        Some m \<Rightarrow> Inl (OSError m)
      | None \<Rightarrow>
          (case utf8_decode E (c_string_value (store 1024 (CHR 0x00) (buf_char (lib E tr)))) of
             Inl why \<Rightarrow> Inl (UnicodeDecodeError why)
           | Inr text \<Rightarrow> Inr text))"

text \<open>
  The last call of \<open>tr\<close> returned, with the success status (\<open>succeeded\<close>) or with
  another one (\<open>failed\<close>).
\<close>

definition succeeded :: "env \<Rightarrow> native_call list \<Rightarrow> bool" where
  "succeeded E tr \<longleftrightarrow> raised (lib E tr) = None \<and> sint (ret (lib E tr)) = ERROR_NONE"

definition failed :: "env \<Rightarrow> native_call list \<Rightarrow> bool" where
  "failed E tr \<longleftrightarrow> raised (lib E tr) = None \<and> sint (ret (lib E tr)) \<noteq> ERROR_NONE"

text \<open>
  The entry points that return a status: those declared with \<^verbatim>\<open>restype = c_int\<close>,
  the error-message accessor apart.
\<close>

definition status_checked :: "native_call \<Rightarrow> bool" where
  "status_checked c \<longleftrightarrow>
     (case c of GetLastErrorMessage n \<Rightarrow> False | _ \<Rightarrow> restype c = C_int)"

text \<open>
  The text that names the operation in the \<^verbatim>\<open>RuntimeError\<close> raised for each entry
  point; the two-phase getters name the phase, which the buffer argument tells apart.
\<close>

primrec failure_text :: "native_call \<Rightarrow> string" where
  "failure_text GetVersion = ''''"
| "failure_text (GetLastErrorMessage n) = ''''"
| "failure_text GetUSBParameters = ''''"
| "failure_text (SetUSBParameters t b q) = ''Failed to set USB parameters: ''"
| "failure_text (EnableDataStreamLog e) = ''''"
| "failure_text (InitialiseSession p) = ''Failed to initialize GlazLib session with config file: ''"
| "failure_text (InitialiseSingleDeviceSession d u a) = ''Failed to initialize GlazLib session with device type: ''"
| "failure_text CloseSession = ''Failed to close GlazLib session: ''"
| "failure_text ResetAllDevices = ''''"
| "failure_text ResetAllPorts = ''''"
| "failure_text (SetTestMode m) = ''Failed to set test mode: ''"
| "failure_text (SetWavelengths lo hi) = ''Failed to set wavelength range: ''"
| "failure_text (SetHardwareAveraging a) = ''Failed to set hardware averaging: ''"
| "failure_text (SetResolution r) = ''Failed to set resolution: ''"
| "failure_text (SetScanCount n) = ''Failed to set scan count: ''"
| "failure_text (SetScanClockSpeed v) = ''Failed to set scan clock speed: ''"
| "failure_text (SetADCGain g) = ''Failed to set ADC gain: ''"
| "failure_text (SetTriggerDelay d) = ''Failed to set trigger delay: ''"
| "failure_text (SetTriggerMode m) = ''Failed to set trigger mode: ''"
| "failure_text (SetInternalTriggerFrequency f) = ''Failed to set internal trigger frequency: ''"
| "failure_text (SetIntegrationMode m) = ''Failed to set integration mode: ''"
| "failure_text (SetIntegrationTime t) = ''Failed to set integration time: ''"
| "failure_text (SetSyncOutMode m) = ''Failed to set sync output mode: ''"
| "failure_text (SetSyncOutPolarity p) = ''Failed to set sync output polarity: ''"
| "failure_text (SetAuxOutMode m) = ''Failed to set auxiliary output mode: ''"
| "failure_text (SetAuxOutPolarity p) = ''Failed to set auxiliary output polarity: ''"
| "failure_text (SetOutCycleCount n) = ''Failed to set output cycle count: ''"
| "failure_text (SetTimeout t) = ''Failed to set timeout: ''"
| "failure_text (CaptureBackground n) = ''Failed to capture background: ''"
| "failure_text RunMeasurement = ''Failed to run measurement: ''"
| "failure_text StartMeasurement = ''Failed to start measurement: ''"
| "failure_text IsMeasurementDone = ''Failed to check if measurement is done: ''"
| "failure_text (GetResult i n b) =
     (case b of None \<Rightarrow> ''Failed to get result size: '' | Some cap \<Rightarrow> ''Failed to get result data: '')"
| "failure_text (GetComplexResult i n b1 b2) =
     (case b1 of None \<Rightarrow> ''Failed to get complex result size: '' | Some cap \<Rightarrow> ''Failed to get complex result data: '')"
| "failure_text (GetTimeStamp i ch) = ''Failed to get time stamp: ''"
| "failure_text (GetScan i j n b) =
     (case b of None \<Rightarrow> ''Failed to get scan size: '' | Some cap \<Rightarrow> ''Failed to get scan data: '')"
| "failure_text (GetComplexScan i j n b1 b2) =
     (case b1 of None \<Rightarrow> ''Failed to get complex scan size: '' | Some cap \<Rightarrow> ''Failed to get complex scan data: '')"
| "failure_text (GetAllScansSizes i) = ''Failed to get all scans sizes: ''"
| "failure_text (GetAllScans i b) = ''Failed to get all scans: ''"
| "failure_text (WriteAllScansToFile i f h) = ''Failed to write all scans to file: ''"
| "failure_text (GetPDValues i ch n b) =
     (case b of None \<Rightarrow> ''Failed to get photodiode values size: '' | Some cap \<Rightarrow> ''Failed to get photodiode values: '')"
| "failure_text (GetPDReference i ch) = ''Failed to get photodiode reference: ''"
| "failure_text (GetAUXStates i n b) =
     (case b of None \<Rightarrow> ''Failed to get auxiliary states size: '' | Some cap \<Rightarrow> ''Failed to get auxiliary states: '')"
| "failure_text (GetAUXCycleCounts i ch n b) =
     (case b of None \<Rightarrow> ''Failed to get auxiliary cycle counts size: '' | Some cap \<Rightarrow> ''Failed to get auxiliary cycle counts: '')"
| "failure_text RunUSBCommsTest = ''USB communications test failed: ''"

text \<open>
  The life of one session object: \<^verbatim>\<open>__init__\<close>, then any calls of its methods,
  whether they raise or not, then \<^verbatim>\<open>__del__\<close> when the object is destroyed.
\<close>

definition lifetime ::
  "env \<Rightarrow> string option \<Rightarrow> int \<Rightarrow> bool \<Rightarrow> bool \<Rightarrow> method_call list \<Rightarrow> state \<Rightarrow> state" where
  "lifetime E config_file device_type use_defaults allow_demo ms s =
     del E (foldl (\<lambda>s1 m. snd (call_method E m s1))
              (snd (init E config_file device_type use_defaults allow_demo s)) ms)"

text \<open>The state after the calls \<open>cs\<close> have been made from \<open>s\<close>.\<close>

definition after :: "state \<Rightarrow> native_call list \<Rightarrow> state" where
  "after s cs = s\<lparr>calls := calls s @ cs\<rparr>"

text \<open>
  The size query \<open>q\<close>, made in state \<open>s\<close>, returns success and reports the count
  \<open>reported E s q\<close> through its first integer out-parameter (\<open>reported2\<close>: its
  second); \<open>no_data\<close> when that count is at most zero, \<open>has_data\<close> when it is
  positive.
\<close>

definition reported :: "env \<Rightarrow> state \<Rightarrow> native_call \<Rightarrow> c_int" where
  "reported E s q = out_int1 (lib E (calls s @ [q]))"

definition reported2 :: "env \<Rightarrow> state \<Rightarrow> native_call \<Rightarrow> c_int" where
  "reported2 E s q = out_int2 (lib E (calls s @ [q]))"

definition no_data :: "env \<Rightarrow> state \<Rightarrow> native_call \<Rightarrow> bool" where
  "no_data E s q \<longleftrightarrow>
     succeeded E (calls s @ [q]) \<and> sint (out_int1 (lib E (calls s @ [q]))) \<le> 0"

definition has_data :: "env \<Rightarrow> state \<Rightarrow> native_call \<Rightarrow> bool" where
  "has_data E s q \<longleftrightarrow>
     succeeded E (calls s @ [q]) \<and> 0 < sint (out_int1 (lib E (calls s @ [q])))"

text \<open>
  The calls of a getter that goes on to its fetch phase: the size query \<open>q\<close>, the
  fetch \<open>f\<close>, and the error-message accessor when the fetch fails.
\<close>

definition fetch_trace :: "state \<Rightarrow> native_call \<Rightarrow> native_call \<Rightarrow> native_call list set" where
  "fetch_trace s q f =
     {calls s @ [q, f], calls s @ [q, f, GetLastErrorMessage 1024]}"

text \<open>
  The exception a failed status check raises when the error-message accessor is the
  last call of \<open>tr\<close>: the \<^verbatim>\<open>RuntimeError\<close> with the operation's text and the
  message, or what fetching the message raised.
\<close>

definition raised_error :: "env \<Rightarrow> native_call list \<Rightarrow> string \<Rightarrow> exn" where
  "raised_error E tr what =
     (case fetched E tr of Inl e \<Rightarrow> e | Inr msg \<Rightarrow> RuntimeError (what @ msg))"

text \<open>
  The handler of \<^verbatim>\<open>__init__\<close> applied to an exception, and the initialise call
  made for a resolved configuration path: \<^verbatim>\<open>initialiseSession\<close> for a file,
  \<^verbatim>\<open>initialiseSingleDeviceSession\<close> for none.
\<close>

definition init_wrap :: "exn \<Rightarrow> exn" where
  "init_wrap e =
     (case e of
        RuntimeError m \<Rightarrow> e
      | FileNotFoundError m \<Rightarrow> e
      | _ \<Rightarrow> RuntimeError (''Failed to initialize GlazLib session: '' @ str_exn e))"

definition init_call :: "string option \<Rightarrow> int \<Rightarrow> bool \<Rightarrow> bool \<Rightarrow> native_call" where
  "init_call config_path dt ud ad =
     (case config_path of
        Some p \<Rightarrow> InitialiseSession p
      | None \<Rightarrow> InitialiseSingleDeviceSession dt ud ad)"

text \<open>
  The paths \<^verbatim>\<open>__init__\<close> looks at for a configuration, in the order it looks. For
  a supplied name: the name itself, then the name with \<^verbatim>\<open>.xml\<close> appended unless it
  ends so already (in any case), in the \<^verbatim>\<open>configs\<close> directory beside the package,
  in the package directory and in the working directory. For no name: each of the two
  default file names in turn, in those three directories.
\<close>

definition with_xml :: "string \<Rightarrow> string" where
  "with_xml name = (if endswith (lower name) ''.xml'' then name else name @ ''.xml'')"

definition candidates :: "env \<Rightarrow> string option \<Rightarrow> string list" where
  "candidates E config_file =
     (let dirs = [path_join E (path_dirname E (pkg_dir E)) ''configs'', pkg_dir E, getcwd E]
      in case config_file of
           Some f \<Rightarrow> f # map (\<lambda>d. path_join E d (with_xml f)) dirs
         | None \<Rightarrow>
             concat (map (\<lambda>config. map (\<lambda>d. path_join E d config) dirs)
                       [''single_spectrometer.xml'', ''double_spectrometer.xml'']))"

text \<open>
  \<^verbatim>\<open>__init__\<close> made the one initialise call \<open>c\<close>: it returned normally after
  \<open>c\<close> alone, which returned success; or \<open>c\<close> did not return success, nothing
  followed it but the error-message accessor, and a \<^verbatim>\<open>RuntimeError\<close> was raised.
\<close>

definition init_attempt :: "env \<Rightarrow> state \<Rightarrow> native_call \<Rightarrow> exn + unit \<Rightarrow> state \<Rightarrow> bool" where
  "init_attempt E s c res s' \<longleftrightarrow>
     (res = Inr () \<longrightarrow> succeeded E (calls s @ [c]) \<and> calls s' = calls s @ [c]) \<and>
     (res \<noteq> Inr () \<longrightarrow>
        \<not> succeeded E (calls s @ [c]) \<and>
        calls s' \<in> {calls s @ [c], calls s @ [c, GetLastErrorMessage 1024]} \<and>
        (\<exists>m. res = Inl (RuntimeError m)))"

text \<open>
  The error discipline of one operation that made the calls from \<open>tr0\<close> to \<open>tr1\<close>
  and ended with \<open>res\<close>: a status-returning call that came back with a non-success
  status is followed by the error-message accessor with a 1024-byte buffer and by
  nothing else, the operation raises, and when the message was fetched it raises the
  \<^verbatim>\<open>RuntimeError\<close> made of the operation's text and the message. \<^verbatim>\<open>closeSession\<close>
  is the exception: \<^verbatim>\<open>close\<close> may return normally, and always does for the
  not-initialised status. \<open>passes\<close>: the call \<open>c\<close> made after \<open>tr\<close> did not
  return a non-success status.
\<close>

definition reports :: "env \<Rightarrow> native_call list \<Rightarrow> native_call list \<Rightarrow> exn option \<Rightarrow> bool" where
  "reports E tr0 tr1 res \<longleftrightarrow>
     (\<forall>pre c post. tr1 = tr0 @ pre @ c # post \<longrightarrow> status_checked c \<longrightarrow>
        failed E (tr0 @ pre @ [c]) \<longrightarrow>
        post = [GetLastErrorMessage 1024] \<and>
        (c \<noteq> CloseSession \<longrightarrow> res \<noteq> None) \<and>
        (\<forall>msg. fetched E tr1 = Inr msg \<longrightarrow>
           \<not> (c = CloseSession \<and> sint (ret (lib E (tr0 @ pre @ [c]))) = ERROR_NOT_INITIALISED) \<longrightarrow>
           res = Some (RuntimeError (failure_text c @ msg))))"

definition passes :: "env \<Rightarrow> native_call list \<Rightarrow> native_call \<Rightarrow> bool" where
  "passes E tr c \<longleftrightarrow> \<not> (status_checked c \<and> failed E (tr @ [c]))"

text \<open>
  The number of \<^verbatim>\<open>closeSession\<close> calls made so far, and that number plus the one
  still owed by a session that is marked open.
\<close>

definition closes :: "state \<Rightarrow> nat" where
  "closes s = count_list (calls s) CloseSession"

definition pending :: "state \<Rightarrow> nat" where
  "pending s = closes s + (if initialized s then 1 else 0)"

section \<open>A scripted environment\<close>

text \<open>
  An environment to run the wrapper in: a library that answers the \<open>k\<close>-th call of
  the process with the \<open>k\<close>-th reply of a script (and with \<open>plain_reply\<close> after the
  script ends), a decoder for ASCII text, a file system that holds the listed files,
  and POSIX-style paths.
\<close>

definition plain_reply :: reply where
  "plain_reply =
     \<lparr>raised = None, ret = 0, out_int1 = 0, out_int2 = 0, out_int3 = 0, out_bool = False,
      out_double = 0, buf_double1 = [], buf_double2 = [], buf_uint16 = [], buf_bool = [],
      buf_int = [], buf_char = []\<rparr>"

definition scripted :: "reply list \<Rightarrow> native_call list \<Rightarrow> reply" where
  "scripted rs tr =
     (if tr \<noteq> [] \<and> length tr \<le> length rs then rs ! (length tr - 1) else plain_reply)"

definition ascii_decode :: "string \<Rightarrow> string + string" where
  "ascii_decode bs =
     (if list_all (\<lambda>c. \<not> digit7 c) bs then Inr bs else Inl ''invalid start byte'')"

definition posix_join :: "string \<Rightarrow> string \<Rightarrow> string" where
  "posix_join directory name =
     (if take 1 name = ''/'' then name else directory @ ''/'' @ name)"

definition posix_dirname :: "string \<Rightarrow> string" where
  "posix_dirname path = rev (drop 1 (dropWhile (\<lambda>c. c \<noteq> CHR ''/'') (rev path)))"

definition scripted_env :: "reply list \<Rightarrow> string list \<Rightarrow> env" where
  "scripted_env rs files =
     \<lparr>lib = scripted rs, utf8_decode = ascii_decode, isfile = (\<lambda>path. path \<in> set files),
      path_join = posix_join, path_dirname = posix_dirname,
      pkg_dir = ''/opt/pyglaz/pyglaz'', getcwd = ''/home/user''\<rparr>"

definition fresh :: state where
  "fresh = \<lparr>initialized = False, calls = []\<rparr>"

section \<open>Facts about the model\<close>

subsection \<open>Buffers and status checks\<close>

lemma takeWhile_zero_fill:
  "takeWhile (\<lambda>c. c \<noteq> z) (xs @ replicate k z) = takeWhile (\<lambda>c. c \<noteq> z) xs"
proof -
  have "takeWhile (\<lambda>c. c \<noteq> z) (replicate k z) = []" by (cases k) simp_all
  then show ?thesis by (induction xs) simp_all
qed

lemma c_string_store:
  "c_string_value (store n (CHR 0x00) w) = takeWhile (\<lambda>c. c \<noteq> CHR 0x00) (take n w)"
  by (simp add: c_string_value_def store_def takeWhile_zero_fill)

lemma length_store: "length (store n z w) = n"
  by (simp add: store_def)

lemma status_call_eq:
  "status_call E c what s =
     (let tr = calls s @ [c]; r = lib E tr
      in case raised r of
           Some m \<Rightarrow> (Inl (OSError m), s\<lparr>calls := tr\<rparr>)
         | None \<Rightarrow>
             if restype c = C_int \<and> sint (ret r) = ERROR_NONE then (Inr r, s\<lparr>calls := tr\<rparr>)
             else (case fetched E (tr @ [GetLastErrorMessage 1024]) of
                     Inl e \<Rightarrow> Inl e
                   | Inr msg \<Rightarrow> Inl (RuntimeError (what @ msg)),
                   s\<lparr>calls := tr @ [GetLastErrorMessage 1024]\<rparr>))"
  by (simp add: status_call_def foreign_def raise_last_error_def get_last_error_message_def fetched_def Let_def
      split: option.splits result_type.splits sum.splits)

lemma status_call_cases:
  "status_call E c what s =
     (let tr = calls s @ [c]; r = lib E tr
      in case raised r of
           Some m \<Rightarrow> (Inl (OSError m), s\<lparr>calls := tr\<rparr>)
         | None \<Rightarrow>
             if restype c = C_int \<and> sint (ret r) = ERROR_NONE then (Inr r, s\<lparr>calls := tr\<rparr>)
             else (Inl (raised_error E (tr @ [GetLastErrorMessage 1024]) what),
                   s\<lparr>calls := tr @ [GetLastErrorMessage 1024]\<rparr>))"
  by (simp add: status_call_eq raised_error_def Let_def split: option.splits sum.splits)

lemma status_call_ok:
  "succeeded E (calls s @ [c]) \<Longrightarrow> restype c = C_int \<Longrightarrow>
   status_call E c what s = (Inr (lib E (calls s @ [c])), s\<lparr>calls := calls s @ [c]\<rparr>)"
  by (simp add: status_call_eq succeeded_def Let_def)

lemma status_call_after:
  "succeeded E (calls s @ [c]) \<Longrightarrow> restype c = C_int \<Longrightarrow>
   status_call E c what s = (Inr (lib E (calls s @ [c])), after s [c])"
  by (simp add: status_call_ok after_def)

lemma calls_status_call:
  "calls (snd (status_call E c what s)) \<in> {calls s @ [c], calls s @ [c, GetLastErrorMessage 1024]}"
  by (simp add: status_call_cases Let_def split: option.splits)

lemma calls_after_status_call:
  "calls (snd (status_call E f what (after s [q]))) \<in> fetch_trace s q f"
  using calls_status_call[of E f what "after s [q]"] by (simp add: after_def fetch_trace_def)

lemma calls_after_eq:
  "status_call E f what (after s [q]) = (x, s2) \<Longrightarrow> calls s2 \<in> fetch_trace s q f"
  using calls_after_status_call[of E f what s q] by simp

subsection \<open>The scripted environment\<close>

lemma scripted_env_simps:
  "lib (scripted_env rs files) = scripted rs"
  "utf8_decode (scripted_env rs files) = ascii_decode"
  "isfile (scripted_env rs files) = (\<lambda>path. path \<in> set files)"
  "path_join (scripted_env rs files) = posix_join"
  "path_dirname (scripted_env rs files) = posix_dirname"
  "pkg_dir (scripted_env rs files) = ''/opt/pyglaz/pyglaz''"
  "getcwd (scripted_env rs files) = ''/home/user''"
  by (simp_all add: scripted_env_def)

lemmas run_defs =
  scripted_env_simps scripted_def plain_reply_def fresh_def ERROR_NONE_def
  ERROR_NOT_INITIALISED_def after_def

lemma fetched_scripted:
  "fetched (scripted_env rs files) tr =
     (let r = scripted rs tr
      in case raised r of
           Some m \<Rightarrow> Inl (OSError m)
         | None \<Rightarrow>
             (case ascii_decode (takeWhile (\<lambda>c. c \<noteq> CHR 0x00) (take 1024 (buf_char r))) of
                Inl why \<Rightarrow> Inl (UnicodeDecodeError why)
              | Inr text \<Rightarrow> Inr text))"
  by (simp add: fetched_def scripted_env_simps c_string_store Let_def split: option.splits)

lemma resolve_none_scripted: "resolve_config (scripted_env rs []) None = Inr None"
  by (simp add: resolve_config_def find_config_file_def default_search_dirs_def
      scripted_env_simps)

subsection \<open>Opening and closing\<close>

lemma close_closed: "\<not> initialized s \<Longrightarrow> close E s = (Inr (), s)"
  by (simp add: close_def)

lemma close_clears: "\<not> initialized (snd (close E s))"
  by (simp add: close_def close_handler_def foreign_def get_last_error_message_def Let_def
      split: option.splits sum.splits exn.splits prod.splits)

lemma close_eq:
  "initialized s \<Longrightarrow>
   close E s =
     (let tr = calls s @ [CloseSession]; r = lib E tr
      in case raised r of
           Some m \<Rightarrow> (Inr (), s\<lparr>initialized := False, calls := tr\<rparr>)
         | None \<Rightarrow>
             if sint (ret r) = ERROR_NONE then (Inr (), s\<lparr>initialized := False, calls := tr\<rparr>)
             else (case fetched E (tr @ [GetLastErrorMessage 1024]) of
                     Inl e \<Rightarrow> Inr ()
                   | Inr msg \<Rightarrow>
                       if sint (ret r) = ERROR_NOT_INITIALISED then Inr ()
                       else Inl (RuntimeError (''Failed to close GlazLib session: '' @ msg)),
                   s\<lparr>initialized := False, calls := tr @ [GetLastErrorMessage 1024]\<rparr>))"
  by (simp add: close_def close_handler_def foreign_def get_last_error_message_def fetched_def
      Let_def split: option.splits sum.splits)

lemma find_config_file_error:
  "find_config_file E name dirs = Inl e \<Longrightarrow> \<exists>m. e = FileNotFoundError m"
  by (auto simp add: find_config_file_def Let_def split: option.splits)

lemma resolve_config_error:
  "resolve_config E cfg = Inl e \<Longrightarrow> \<exists>m. e = FileNotFoundError m"
  by (auto simp add: resolve_config_def split: option.splits if_splits sum.splits exn.splits
      dest: find_config_file_error)

lemma find_append_first:
  "find P (xs @ ys) = (case find P xs of Some x \<Rightarrow> Some x | None \<Rightarrow> find P ys)"
  by (induction xs) simp_all

lemma find_in_dirs_find:
  "find_in_dirs E config dirs = find (isfile E) (map (\<lambda>d. path_join E d config) dirs)"
  by (induction dirs) (simp_all add: Let_def)

lemma find_default_find:
  "find_default E dirs configs
     = find (isfile E) (concat (map (\<lambda>config. map (\<lambda>d. path_join E d config) dirs) configs))"
  by (induction configs) (simp_all add: find_append_first find_in_dirs_find split: option.splits)

lemma resolve_config_find:
  "resolve_config E config_file =
     (case find (isfile E) (candidates E config_file) of
        Some p \<Rightarrow> Inr (Some p)
      | None \<Rightarrow>
          (case config_file of
             Some f \<Rightarrow> Inl (FileNotFoundError (''Could not find configuration file: '' @ with_xml f))
           | None \<Rightarrow> Inr None))"
proof (cases config_file)
  case None
  then show ?thesis
    by (simp add: resolve_config_def find_config_file_def find_default_find candidates_def
        default_search_dirs_def Let_def split: option.splits)
next
  case (Some f)
  then show ?thesis
    by (simp add: resolve_config_def find_config_file_def find_in_dirs_find candidates_def
        default_search_dirs_def with_xml_def Let_def split: option.splits)
qed

lemma init_eq:
  "init E cfg dt ud ad s =
     (case resolve_config E cfg of
        Inl e \<Rightarrow> (Inl e, s\<lparr>initialized := False\<rparr>)
      | Inr p \<Rightarrow>
          (let c = init_call p dt ud ad; tr = calls s @ [c]; r = lib E tr
           in case raised r of
                Some m \<Rightarrow>
                  (Inl (RuntimeError (''Failed to initialize GlazLib session: '' @ m)),
                   s\<lparr>initialized := False, calls := tr\<rparr>)
              | None \<Rightarrow>
                  if sint (ret r) = ERROR_NONE then (Inr (), s\<lparr>initialized := True, calls := tr\<rparr>)
                  else (Inl (init_wrap (raised_error E (tr @ [GetLastErrorMessage 1024])
                                          (failure_text c))),
                        s\<lparr>initialized := False, calls := tr @ [GetLastErrorMessage 1024]\<rparr>)))"
proof (cases "resolve_config E cfg")
  case (Inl e)
  then obtain m where "e = FileNotFoundError m" using resolve_config_error by blast
  with Inl show ?thesis by (simp add: init_def init_body_def)
next
  case (Inr p)
  then show ?thesis
    by (cases p)
       (simp_all add: init_def init_body_def init_call_def status_call_cases Let_def init_wrap_def
          split: option.splits exn.splits)
qed

lemma init_wrap_raised:
  "fetched E tr = Inr msg \<Longrightarrow> init_wrap (raised_error E tr what) = RuntimeError (what @ msg)"
  by (simp add: init_wrap_def raised_error_def)

lemma init_flag:
  "initialized (snd (init E cfg dt ud ad s)) \<longleftrightarrow> fst (init E cfg dt ud ad s) = Inr ()"
  by (simp add: init_eq Let_def split: sum.splits option.splits)

lemma init_unresolved:
  "resolve_config E cfg = Inl e \<Longrightarrow>
   init E cfg dt ud ad s = (Inl e, s\<lparr>initialized := False\<rparr>)"
  by (simp add: init_eq)

lemma init_resolved:
  assumes "resolve_config E cfg = Inr p" and "c = init_call p dt ud ad"
  shows "(fst (init E cfg dt ud ad s) = Inr () \<longrightarrow>
            succeeded E (calls s @ [c]) \<and> calls (snd (init E cfg dt ud ad s)) = calls s @ [c]) \<and>
         (fst (init E cfg dt ud ad s) \<noteq> Inr () \<longrightarrow>
            \<not> succeeded E (calls s @ [c]) \<and>
            calls (snd (init E cfg dt ud ad s))
              \<in> {calls s @ [c], calls s @ [c, GetLastErrorMessage 1024]} \<and>
            (\<exists>m. fst (init E cfg dt ud ad s) = Inl (RuntimeError m)))"
proof -
  have wrap: "\<exists>m. init_wrap (raised_error E tr what) = RuntimeError m" for tr what
    by (cases "fetched E tr")
       (auto simp add: init_wrap_def raised_error_def fetched_def
          split: option.splits sum.splits)
  show ?thesis
    using assms wrap
    by (simp add: init_eq Let_def succeeded_def split: option.splits)
qed

lemma init_device_scripted:
  "init (scripted_env [] []) None 6 True True fresh
     = (Inr (), \<lparr>initialized = True, calls = [InitialiseSingleDeviceSession 6 True True]\<rparr>)"
  by (simp add: init_eq resolve_none_scripted init_call_def Let_def run_defs)

lemma init_attempt_resolved:
  "resolve_config E cfg = Inr p \<Longrightarrow>
   init_attempt E s (init_call p dt ud ad) (fst (init E cfg dt ud ad s)) (snd (init E cfg dt ud ad s))"
  unfolding init_attempt_def by (rule init_resolved) simp_all

lemma candidates_scripted:
  "candidates (scripted_env rs files) (Some ''lab'')
     = [''lab'', ''/opt/pyglaz/configs/lab.xml'', ''/opt/pyglaz/pyglaz/lab.xml'',
        ''/home/user/lab.xml'']"
  "candidates (scripted_env rs files) (Some ''/data/my.xml'')
     = [''/data/my.xml'', ''/data/my.xml'', ''/data/my.xml'', ''/data/my.xml'']"
  "candidates (scripted_env rs files) None
     = [''/opt/pyglaz/configs/single_spectrometer.xml'',
        ''/opt/pyglaz/pyglaz/single_spectrometer.xml'',
        ''/home/user/single_spectrometer.xml'',
        ''/opt/pyglaz/configs/double_spectrometer.xml'',
        ''/opt/pyglaz/pyglaz/double_spectrometer.xml'',
        ''/home/user/double_spectrometer.xml'']"
  by (simp_all add: candidates_def with_xml_def lower_def lower_char_def endswith_def
      posix_join_def posix_dirname_def scripted_env_simps)

lemma init_file_scripted:
  "find (isfile (scripted_env [] files)) (candidates (scripted_env [] files) cfg) = Some p \<Longrightarrow>
   init (scripted_env [] files) cfg dt ud ad fresh
     = (Inr (), \<lparr>initialized = True, calls = [InitialiseSession p]\<rparr>)"
  by (simp add: init_eq resolve_config_find init_call_def Let_def run_defs)

subsection \<open>The error discipline, call by call\<close>

lemma not_checked_glem [simp]: "\<not> status_checked (GetLastErrorMessage n)"
  by (simp add: status_checked_def)

lemma reports0: "reports E tr0 tr0 res"
  by (simp add: reports_def)

lemma reports1: "passes E tr0 c \<Longrightarrow> reports E tr0 (tr0 @ [c]) res"
  by (auto simp add: reports_def passes_def append_eq_Cons_conv Cons_eq_append_conv)

lemma reports2:
  "c \<noteq> CloseSession \<Longrightarrow> status_checked c \<longrightarrow> what = failure_text c \<Longrightarrow>
   reports E tr0 (tr0 @ [c, GetLastErrorMessage 1024])
     (Some (raised_error E (tr0 @ [c, GetLastErrorMessage 1024]) what))"
  by (auto simp add: reports_def raised_error_def append_eq_Cons_conv Cons_eq_append_conv)

lemma reports_step:
  "passes E tr0 c \<Longrightarrow> reports E (tr0 @ [c]) (tr0 @ c # rest) res \<Longrightarrow>
   reports E tr0 (tr0 @ c # rest) res"
  unfolding reports_def passes_def
  apply (intro allI impI)
  subgoal for pre c' post
    apply (cases pre)
     apply simp
    apply (drule spec[of _ "tl pre"], drule spec[of _ c'], drule spec[of _ post])
    apply simp
    done
  done

lemma passes_ok:
  "sint (ret (lib E (tr @ [c]))) = ERROR_NONE \<Longrightarrow> passes E tr c"
  by (simp add: passes_def failed_def)

lemma passes_raised:
  "raised (lib E (tr @ [c])) = Some m \<Longrightarrow> passes E tr c"
  by (simp add: passes_def failed_def)

lemma passes_void: "restype c = C_void \<Longrightarrow> passes E tr c"
  by (cases c) (simp_all add: passes_def status_checked_def)

lemma reports3:
  "passes E tr0 c1 \<Longrightarrow> passes E (tr0 @ [c1]) c2 \<Longrightarrow> reports E tr0 (tr0 @ [c1, c2]) res"
  using reports_step[of E tr0 c1 "[c2]" res] reports1[of E "tr0 @ [c1]" c2 res] by simp

lemma reports4:
  "passes E tr0 c1 \<Longrightarrow> c2 \<noteq> CloseSession \<Longrightarrow> status_checked c2 \<longrightarrow> what = failure_text c2 \<Longrightarrow>
   reports E tr0 (tr0 @ [c1, c2, GetLastErrorMessage 1024])
     (Some (raised_error E (tr0 @ [c1, c2, GetLastErrorMessage 1024]) what))"
  using reports_step[of E tr0 c1 "[c2, GetLastErrorMessage 1024]"]
    reports2[of c2 what E "tr0 @ [c1]"] by simp

lemmas reports_shapes = reports0 reports1 reports2 reports3 reports4 passes_ok passes_raised

lemma outcome_returning_none: "outcome (returning_none x) = outcome x"
  by (simp add: outcome_def returning_none_def split: prod.splits sum.splits)

lemma outcome_status_call:
  "outcome (status_call E c what s) =
     (let tr = calls s @ [c]; r = lib E tr
      in case raised r of
           Some m \<Rightarrow> (Some (OSError m), s\<lparr>calls := tr\<rparr>)
         | None \<Rightarrow>
             if restype c = C_int \<and> sint (ret r) = ERROR_NONE then (None, s\<lparr>calls := tr\<rparr>)
             else (Some (raised_error E (tr @ [GetLastErrorMessage 1024]) what),
                   s\<lparr>calls := tr @ [GetLastErrorMessage 1024]\<rparr>))"
  by (simp add: outcome_def status_call_eq raised_error_def Let_def split: option.splits sum.splits)

lemma outcome_map:
  "outcome (case x of (Inl e, s1) \<Rightarrow> (Inl e, s1) | (Inr r, s1) \<Rightarrow> (Inr (f r), s1)) = outcome x"
  by (simp add: outcome_def split: prod.splits sum.splits)

lemma outcome_foreign:
  "outcome (case foreign E c s of
              (Inl e, s1) \<Rightarrow> (Inl e, s1)
            | (Inr (status, r), s1) \<Rightarrow> (Inr (f r), s1))
     = (case raised (lib E (calls s @ [c])) of Some m \<Rightarrow> Some (OSError m) | None \<Rightarrow> None,
        s\<lparr>calls := calls s @ [c]\<rparr>)"
  by (simp add: outcome_def foreign_def Let_def split: option.splits)

lemma outcome_glem:
  "outcome (get_last_error_message E s) =
     (case fetched E (calls s @ [GetLastErrorMessage 1024]) of Inl e \<Rightarrow> Some e | Inr t \<Rightarrow> None,
      s\<lparr>calls := calls s @ [GetLastErrorMessage 1024]\<rparr>)"
  by (simp add: outcome_def get_last_error_message_def foreign_def fetched_def Let_def
      split: option.splits sum.splits)

lemma reports_status_call:
  assumes "c \<noteq> CloseSession" and "status_checked c \<longrightarrow> what = failure_text c"
  shows "reports E (calls s) (calls (snd (outcome (status_call E c what s))))
           (fst (outcome (status_call E c what s)))"
proof -
  have void: "restype c \<noteq> C_int \<Longrightarrow> passes E (calls s) c"
    by (cases c) (simp_all add: passes_def status_checked_def)
  show ?thesis
    using assms void
    by (auto simp add: outcome_status_call Let_def reports1 reports2 passes_def failed_def
        split: option.splits)
qed

lemmas simple_method_defs =
  set_usb_parameters_def set_test_mode_def set_wavelengths_def set_hardware_averaging_def
  set_resolution_def set_scan_count_def set_scan_clock_speed_def set_adc_gain_def
  set_trigger_delay_def set_trigger_mode_def set_internal_trigger_frequency_def
  set_integration_mode_def set_integration_time_def set_sync_out_mode_def
  set_sync_out_polarity_def set_aux_out_mode_def set_aux_out_polarity_def
  set_out_cycle_count_def set_timeout_def capture_background_def run_measurement_def
  start_measurement_def is_measurement_done_def get_time_stamp_def get_all_scans_sizes_def
  write_all_scans_to_file_def get_pd_reference_def run_usb_comms_test_def

lemmas void_method_defs =
  get_version_def get_usb_parameters_def enable_data_stream_log_def reset_all_devices_def
  reset_all_ports_def

lemmas getter_defs =
  get_result_def get_complex_result_def get_scan_def get_complex_scan_def get_all_scans_def
  get_pd_values_def get_aux_states_def get_aux_cycle_counts_def

lemma reports_init:
  "reports E (calls s) (calls (snd (outcome (init E cfg dt ud ad s))))
     (fst (outcome (init E cfg dt ud ad s)))"
proof -
  have shape: "reports E tr0 (tr0 @ [c, GetLastErrorMessage 1024])
      (Some (init_wrap (raised_error E (tr0 @ [c, GetLastErrorMessage 1024]) (failure_text c))))"
    for tr0 c
    by (auto simp add: reports_def init_wrap_raised append_eq_Cons_conv Cons_eq_append_conv)
  show ?thesis
    by (simp add: init_eq outcome_def Let_def reports_shapes shape
        split: sum.splits option.splits)
qed

lemma reports_close:
  "reports E (calls s) (calls (snd (outcome (close E s)))) (fst (outcome (close E s)))"
proof (cases "initialized s")
  case False
  then show ?thesis by (simp add: close_def outcome_def reports0)
next
  case True
  have shape: "reports E tr0 (tr0 @ [CloseSession, GetLastErrorMessage 1024])
      (case fetched E (tr0 @ [CloseSession, GetLastErrorMessage 1024]) of
         Inl e \<Rightarrow> None
       | Inr msg \<Rightarrow>
           if sint (ret (lib E (tr0 @ [CloseSession]))) = ERROR_NOT_INITIALISED then None
           else Some (RuntimeError (''Failed to close GlazLib session: '' @ msg)))"
    for tr0
    by (auto simp add: reports_def append_eq_Cons_conv Cons_eq_append_conv)
  have out: "outcome (case x of Inl e \<Rightarrow> Inr () | Inr msg \<Rightarrow> if b then Inr () else Inl (f msg), t)
     = (case x of Inl e \<Rightarrow> None | Inr msg \<Rightarrow> if b then None else Some (f msg), t)"
    for x :: "exn + string" and b f t
    by (simp add: outcome_def split: sum.splits)
  from True show ?thesis
    by (simp add: close_eq Let_def out reports_shapes shape split: option.splits)
       (auto simp add: outcome_def reports_shapes)
qed

lemma reports_getter:
  "reports E (calls s) (calls (snd (outcome (get_result E i s)))) (fst (outcome (get_result E i s)))"
  "reports E (calls s) (calls (snd (outcome (get_complex_result E i s))))
     (fst (outcome (get_complex_result E i s)))"
  "reports E (calls s) (calls (snd (outcome (get_scan E i j s)))) (fst (outcome (get_scan E i j s)))"
  "reports E (calls s) (calls (snd (outcome (get_complex_scan E i j s))))
     (fst (outcome (get_complex_scan E i j s)))"
  "reports E (calls s) (calls (snd (outcome (get_all_scans E i s))))
     (fst (outcome (get_all_scans E i s)))"
  "reports E (calls s) (calls (snd (outcome (get_pd_values E i j s))))
     (fst (outcome (get_pd_values E i j s)))"
  "reports E (calls s) (calls (snd (outcome (get_aux_states E i s))))
     (fst (outcome (get_aux_states E i s)))"
  "reports E (calls s) (calls (snd (outcome (get_aux_cycle_counts E i j s))))
     (fst (outcome (get_aux_cycle_counts E i j s)))"
  by (simp_all add: getter_defs get_all_scans_sizes_def outcome_def status_call_cases Let_def
      reports_shapes status_checked_def np_array_uint16_def split: option.splits sum.splits)

lemma reports_method:
  "reports E (calls s) (calls (snd (call_method E m s))) (fst (call_method E m s))"
proof (cases m)
  case (Init cfg dt ud ad)
  then show ?thesis by (simp add: reports_init)
next
  case Close
  then show ?thesis by (simp add: reports_close)
qed (simp_all add: reports_getter simple_method_defs outcome_returning_none outcome_map
       reports_status_call void_method_defs outcome_foreign outcome_glem reports1 passes_void
       status_checked_def passes_def)

subsection \<open>What a method leaves unchanged\<close>

lemma snd_outcome: "snd (outcome x) = snd x"
  by (simp add: outcome_def split: prod.splits sum.splits)

lemma snd_returning_none: "snd (returning_none x) = snd x"
  by (simp add: returning_none_def split: prod.splits sum.splits)

lemma snd_map:
  "snd (case x of (Inl e, s1) \<Rightarrow> (Inl e, s1) | (Inr r, s1) \<Rightarrow> (Inr (f r), s1)) = snd x"
  by (cases x; cases "fst x") simp_all

lemma snd_map_foreign:
  "snd (case x of (Inl e, s1) \<Rightarrow> (Inl e, s1) | (Inr (status, r), s1) \<Rightarrow> (Inr (f r), s1)) = snd x"
  by (cases x; cases "fst x") auto

lemma frame_status_call:
  "initialized (snd (status_call E c what s)) = initialized s"
  "c \<noteq> CloseSession \<Longrightarrow> closes (snd (status_call E c what s)) = closes s"
  "length (calls s) < length (calls (snd (status_call E c what s)))"
  by (simp_all add: status_call_cases Let_def closes_def split: option.splits)

lemma frame_foreign:
  "initialized (snd (foreign E c s)) = initialized s"
  "c \<noteq> CloseSession \<Longrightarrow> closes (snd (foreign E c s)) = closes s"
  by (simp_all add: foreign_def Let_def closes_def split: option.splits)

lemma frame_glem:
  "initialized (snd (get_last_error_message E s)) = initialized s"
  "closes (snd (get_last_error_message E s)) = closes s"
  by (simp_all add: get_last_error_message_def foreign_def Let_def closes_def
      split: option.splits sum.splits)

lemma frame_get_result:
  "initialized (snd (get_result E i s)) = initialized s \<and> closes (snd (get_result E i s)) = closes s"
  by (simp add: get_result_def status_call_cases Let_def closes_def
      split: option.splits sum.splits)

lemma frame_get_complex_result:
  "initialized (snd (get_complex_result E i s)) = initialized s \<and> closes (snd (get_complex_result E i s)) = closes s"
  by (simp add: get_complex_result_def status_call_cases Let_def closes_def
      split: option.splits sum.splits)

lemma frame_get_scan:
  "initialized (snd (get_scan E i j s)) = initialized s \<and> closes (snd (get_scan E i j s)) = closes s"
  by (simp add: get_scan_def status_call_cases Let_def closes_def
      split: option.splits sum.splits)

lemma frame_get_complex_scan:
  "initialized (snd (get_complex_scan E i j s)) = initialized s \<and> closes (snd (get_complex_scan E i j s)) = closes s"
  by (simp add: get_complex_scan_def status_call_cases Let_def closes_def
      split: option.splits sum.splits)

lemma frame_get_all_scans:
  "initialized (snd (get_all_scans E i s)) = initialized s \<and> closes (snd (get_all_scans E i s)) = closes s"
  by (simp add: get_all_scans_def get_all_scans_sizes_def np_array_uint16_def status_call_cases Let_def closes_def
      split: option.splits sum.splits)

lemma frame_get_pd_values:
  "initialized (snd (get_pd_values E i j s)) = initialized s \<and> closes (snd (get_pd_values E i j s)) = closes s"
  by (simp add: get_pd_values_def status_call_cases Let_def closes_def
      split: option.splits sum.splits)

lemma frame_get_aux_states:
  "initialized (snd (get_aux_states E i s)) = initialized s \<and> closes (snd (get_aux_states E i s)) = closes s"
  by (simp add: get_aux_states_def status_call_cases Let_def closes_def
      split: option.splits sum.splits)

lemma frame_get_aux_cycle_counts:
  "initialized (snd (get_aux_cycle_counts E i j s)) = initialized s \<and> closes (snd (get_aux_cycle_counts E i j s)) = closes s"
  by (simp add: get_aux_cycle_counts_def status_call_cases Let_def closes_def
      split: option.splits sum.splits)

lemmas frame_getter = frame_get_result frame_get_complex_result frame_get_scan frame_get_complex_scan frame_get_all_scans frame_get_pd_values frame_get_aux_states frame_get_aux_cycle_counts

lemma frame_method:
  "\<not> is_init m \<Longrightarrow> m \<noteq> Close \<Longrightarrow>
   initialized (snd (call_method E m s)) = initialized s \<and>
   closes (snd (call_method E m s)) = closes s"
  by (cases m)
     (simp_all add: snd_outcome frame_getter simple_method_defs void_method_defs
        snd_returning_none snd_map snd_map_foreign frame_status_call frame_foreign
        frame_glem)

lemma grows_method:
  "is_setter m \<or> is_acquisition m \<Longrightarrow>
   length (calls s) < length (calls (snd (call_method E m s)))"
  by (cases m)
     (simp_all add: snd_outcome simple_method_defs snd_returning_none snd_map frame_status_call)

lemma close_pending:
  "pending (snd (close E s)) = pending s" "\<not> initialized (snd (close E s))"
  by (cases "initialized s";
      simp add: close_eq Let_def pending_def closes_def close_closed split: option.splits)+

lemma method_pending:
  assumes "\<not> is_init m"
  shows "pending (snd (call_method E m s)) = pending s"
proof (cases "m = Close")
  case True
  then show ?thesis by (simp add: snd_outcome close_pending)
next
  case False
  then show ?thesis using frame_method[of m E s] assms by (simp add: pending_def)
qed

lemma foldl_pending:
  "\<forall>m\<in>set ms. \<not> is_init m \<Longrightarrow>
   pending (foldl (\<lambda>s1 m. snd (call_method E m s1)) s ms) = pending s"
  by (induction ms arbitrary: s) (simp_all add: method_pending)

lemma init_pending:
  "pending (snd (init E cfg dt ud ad s)) =
     closes s + (if fst (init E cfg dt ud ad s) = Inr () then 1 else 0)"
  by (simp add: init_eq Let_def pending_def closes_def init_call_def
      split: sum.splits option.splits)

subsection \<open>The fetch phase of each getter\<close>

lemma fetch_get_result:
  "has_data E s (GetResult index 0 None) \<Longrightarrow>
   calls (snd (get_result E index s))
     \<in> fetch_trace s (GetResult index 0 None)
          (GetResult index (reported E s (GetResult index 0 None))
             (Some (nat (sint (reported E s (GetResult index 0 None))))))"
  by (auto simp add: has_data_def reported_def get_result_def status_call_after Let_def
      split: prod.splits sum.splits intro: calls_after_eq)

lemma fetch_get_scan:
  "has_data E s (GetScan index scan_index 0 None) \<Longrightarrow>
   calls (snd (get_scan E index scan_index s))
     \<in> fetch_trace s (GetScan index scan_index 0 None)
          (GetScan index scan_index (reported E s (GetScan index scan_index 0 None))
             (Some (nat (sint (reported E s (GetScan index scan_index 0 None))))))"
  by (auto simp add: has_data_def reported_def get_scan_def status_call_after Let_def
      split: prod.splits sum.splits intro: calls_after_eq)

lemma fetch_get_pd_values:
  "has_data E s (GetPDValues index channel 0 None) \<Longrightarrow>
   calls (snd (get_pd_values E index channel s))
     \<in> fetch_trace s (GetPDValues index channel 0 None)
          (GetPDValues index channel (reported E s (GetPDValues index channel 0 None))
             (Some (nat (sint (reported E s (GetPDValues index channel 0 None))))))"
  by (auto simp add: has_data_def reported_def get_pd_values_def status_call_after Let_def
      split: prod.splits sum.splits intro: calls_after_eq)

lemma fetch_get_aux_states:
  "has_data E s (GetAUXStates index 0 None) \<Longrightarrow>
   calls (snd (get_aux_states E index s))
     \<in> fetch_trace s (GetAUXStates index 0 None)
          (GetAUXStates index (reported E s (GetAUXStates index 0 None))
             (Some (nat (sint (reported E s (GetAUXStates index 0 None))))))"
  by (auto simp add: has_data_def reported_def get_aux_states_def status_call_after Let_def
      split: prod.splits sum.splits intro: calls_after_eq)

lemma fetch_get_aux_cycle_counts:
  "has_data E s (GetAUXCycleCounts index channel 0 None) \<Longrightarrow>
   calls (snd (get_aux_cycle_counts E index channel s))
     \<in> fetch_trace s (GetAUXCycleCounts index channel 0 None)
          (GetAUXCycleCounts index channel (reported E s (GetAUXCycleCounts index channel 0 None))
             (Some (nat (sint (reported E s (GetAUXCycleCounts index channel 0 None))))))"
  by (auto simp add: has_data_def reported_def get_aux_cycle_counts_def status_call_after Let_def
      split: prod.splits sum.splits intro: calls_after_eq)

lemma fetch_get_complex_result:
  "has_data E s (GetComplexResult index 0 None None) \<Longrightarrow>
   calls (snd (get_complex_result E index s))
     \<in> fetch_trace s (GetComplexResult index 0 None None)
          (GetComplexResult index (reported E s (GetComplexResult index 0 None None))
             (Some (nat (sint (reported E s (GetComplexResult index 0 None None)))))
             (Some (nat (sint (reported E s (GetComplexResult index 0 None None))))))"
  by (auto simp add: has_data_def reported_def get_complex_result_def status_call_after Let_def
      split: prod.splits sum.splits intro: calls_after_eq)

lemma fetch_get_complex_scan:
  "has_data E s (GetComplexScan index scan_index 0 None None) \<Longrightarrow>
   calls (snd (get_complex_scan E index scan_index s))
     \<in> fetch_trace s (GetComplexScan index scan_index 0 None None)
          (GetComplexScan index scan_index (reported E s (GetComplexScan index scan_index 0 None None))
             (Some (nat (sint (reported E s (GetComplexScan index scan_index 0 None None)))))
             (Some (nat (sint (reported E s (GetComplexScan index scan_index 0 None None))))))"
  by (auto simp add: has_data_def reported_def get_complex_scan_def status_call_after Let_def
      split: prod.splits sum.splits intro: calls_after_eq)

lemma fetch_get_all_scans:
  "succeeded E (calls s @ [GetAllScansSizes index]) \<Longrightarrow>
   0 < sint (reported E s (GetAllScansSizes index)) \<Longrightarrow>
   0 < sint (reported2 E s (GetAllScansSizes index)) \<Longrightarrow>
   calls (snd (get_all_scans E index s))
     \<in> fetch_trace s (GetAllScansSizes index)
          (GetAllScans index
             (Some (nat (sint (reported E s (GetAllScansSizes index))
                          * sint (reported2 E s (GetAllScansSizes index))))))"
  by (auto simp add: reported_def reported2_def get_all_scans_def get_all_scans_sizes_def
      status_call_after Let_def split: prod.splits sum.splits intro: calls_after_eq)

lemmas fetch_getters = fetch_get_result fetch_get_scan fetch_get_pd_values fetch_get_aux_states fetch_get_aux_cycle_counts fetch_get_complex_result fetch_get_complex_scan fetch_get_all_scans

section \<open>The properties\<close>

text \<open>
  Claim C1. For each of the eight variable-length getters: when the size query
  returns success and reports a count of at most zero (for \<^verbatim>\<open>get_all_scans\<close>: when
  either of the two counts is at most zero), the getter returns normally with empty
  containers, and with the size 0 where it returns a size, and the size query is the
  only foreign call it has made: the fetch is never issued.
\<close>

theorem getters_empty_without_fetch:
  "(no_data E s (GetResult index 0 None) \<longrightarrow>
      get_result E index s = (Inr (np_array [], 0), after s [GetResult index 0 None])) \<and>
   (no_data E s (GetComplexResult index 0 None None) \<longrightarrow>
      get_complex_result E index s
        = (Inr (np_array [], np_array [], 0), after s [GetComplexResult index 0 None None])) \<and>
   (no_data E s (GetScan index scan_index 0 None) \<longrightarrow>
      get_scan E index scan_index s
        = (Inr (np_array [], 0), after s [GetScan index scan_index 0 None])) \<and>
   (no_data E s (GetComplexScan index scan_index 0 None None) \<longrightarrow>
      get_complex_scan E index scan_index s
        = (Inr (np_array [], np_array [], 0),
           after s [GetComplexScan index scan_index 0 None None])) \<and>
   (succeeded E (calls s @ [GetAllScansSizes index]) \<and>
    (sint (reported E s (GetAllScansSizes index)) \<le> 0 \<or>
     sint (reported2 E s (GetAllScansSizes index)) \<le> 0) \<longrightarrow>
      get_all_scans E index s = (Inr (np_array []), after s [GetAllScansSizes index])) \<and>
   (no_data E s (GetPDValues index channel 0 None) \<longrightarrow>
      get_pd_values E index channel s
        = (Inr (np_array [], 0), after s [GetPDValues index channel 0 None])) \<and>
   (no_data E s (GetAUXStates index 0 None) \<longrightarrow>
      get_aux_states E index s = (Inr ([], 0), after s [GetAUXStates index 0 None])) \<and>
   (no_data E s (GetAUXCycleCounts index channel 0 None) \<longrightarrow>
      get_aux_cycle_counts E index channel s
        = (Inr ([], 0), after s [GetAUXCycleCounts index channel 0 None]))"
  by (simp add: no_data_def reported_def reported2_def getter_defs get_all_scans_sizes_def
      status_call_after)

text \<open>
  The eight getters run against a library that reports the count 0.
\<close>

theorem getters_empty_without_fetch_witness:
  "get_result (scripted_env [plain_reply] []) 0 fresh
     = (Inr (np_array [], 0), after fresh [GetResult 0 0 None]) \<and>
   get_complex_result (scripted_env [plain_reply] []) 0 fresh
     = (Inr (np_array [], np_array [], 0), after fresh [GetComplexResult 0 0 None None]) \<and>
   get_scan (scripted_env [plain_reply] []) 0 0 fresh
     = (Inr (np_array [], 0), after fresh [GetScan 0 0 0 None]) \<and>
   get_complex_scan (scripted_env [plain_reply] []) 0 0 fresh
     = (Inr (np_array [], np_array [], 0), after fresh [GetComplexScan 0 0 0 None None]) \<and>
   get_all_scans (scripted_env [plain_reply] []) 0 fresh
     = (Inr (np_array []), after fresh [GetAllScansSizes 0]) \<and>
   get_pd_values (scripted_env [plain_reply] []) 0 0 fresh
     = (Inr (np_array [], 0), after fresh [GetPDValues 0 0 0 None]) \<and>
   get_aux_states (scripted_env [plain_reply] []) 0 fresh
     = (Inr ([], 0), after fresh [GetAUXStates 0 0 None]) \<and>
   get_aux_cycle_counts (scripted_env [plain_reply] []) 0 0 fresh
     = (Inr ([], 0), after fresh [GetAUXCycleCounts 0 0 0 None])"
  using getters_empty_without_fetch [of "scripted_env [plain_reply] []" fresh 0 0 0]
  by (simp add: no_data_def succeeded_def reported_def reported2_def scripted_env_def
      scripted_def plain_reply_def fresh_def ERROR_NONE_def)

text \<open>
  Claim C2. For each of the eight variable-length getters: when the size query
  returns success and reports \<open>n > 0\<close>, the next foreign call is the fetch, with
  buffers of exactly \<open>n\<close> elements (of exactly \<open>num_scans * pixels_per_scan\<close> elements
  for \<^verbatim>\<open>get_all_scans\<close>), the count being the one the size query has just
  reported; nothing follows the fetch but the error-message accessor when the fetch
  fails. The getters take no size from their caller.
\<close>

theorem getters_fetch_buffer_exact:
  "(has_data E s (GetResult index 0 None) \<longrightarrow>
      (let n = reported E s (GetResult index 0 None)
       in calls (snd (get_result E index s))
            \<in> fetch_trace s (GetResult index 0 None) (GetResult index n (Some (nat (sint n)))))) \<and>
   (has_data E s (GetComplexResult index 0 None None) \<longrightarrow>
      (let n = reported E s (GetComplexResult index 0 None None)
       in calls (snd (get_complex_result E index s))
            \<in> fetch_trace s (GetComplexResult index 0 None None)
                 (GetComplexResult index n (Some (nat (sint n))) (Some (nat (sint n)))))) \<and>
   (has_data E s (GetScan index scan_index 0 None) \<longrightarrow>
      (let n = reported E s (GetScan index scan_index 0 None)
       in calls (snd (get_scan E index scan_index s))
            \<in> fetch_trace s (GetScan index scan_index 0 None)
                 (GetScan index scan_index n (Some (nat (sint n)))))) \<and>
   (has_data E s (GetComplexScan index scan_index 0 None None) \<longrightarrow>
      (let n = reported E s (GetComplexScan index scan_index 0 None None)
       in calls (snd (get_complex_scan E index scan_index s))
            \<in> fetch_trace s (GetComplexScan index scan_index 0 None None)
                 (GetComplexScan index scan_index n (Some (nat (sint n))) (Some (nat (sint n)))))) \<and>
   (succeeded E (calls s @ [GetAllScansSizes index]) \<and>
    0 < sint (reported E s (GetAllScansSizes index)) \<and>
    0 < sint (reported2 E s (GetAllScansSizes index)) \<longrightarrow>
      (let num_scans = sint (reported E s (GetAllScansSizes index));
           pixels_per_scan = sint (reported2 E s (GetAllScansSizes index))
       in calls (snd (get_all_scans E index s))
            \<in> fetch_trace s (GetAllScansSizes index)
                 (GetAllScans index (Some (nat (num_scans * pixels_per_scan)))))) \<and>
   (has_data E s (GetPDValues index channel 0 None) \<longrightarrow>
      (let n = reported E s (GetPDValues index channel 0 None)
       in calls (snd (get_pd_values E index channel s))
            \<in> fetch_trace s (GetPDValues index channel 0 None)
                 (GetPDValues index channel n (Some (nat (sint n)))))) \<and>
   (has_data E s (GetAUXStates index 0 None) \<longrightarrow>
      (let n = reported E s (GetAUXStates index 0 None)
       in calls (snd (get_aux_states E index s))
            \<in> fetch_trace s (GetAUXStates index 0 None)
                 (GetAUXStates index n (Some (nat (sint n)))))) \<and>
   (has_data E s (GetAUXCycleCounts index channel 0 None) \<longrightarrow>
      (let n = reported E s (GetAUXCycleCounts index channel 0 None)
       in calls (snd (get_aux_cycle_counts E index channel s))
            \<in> fetch_trace s (GetAUXCycleCounts index channel 0 None)
                 (GetAUXCycleCounts index channel n (Some (nat (sint n))))))"
  by (simp add: fetch_getters Let_def)

text \<open>
  The getters run against a library that reports the count 3, and the counts 2 and 3
  for \<^verbatim>\<open>get_all_scans\<close>.
\<close>

theorem getters_fetch_buffer_exact_witness:
  "calls (snd (get_result (scripted_env [plain_reply\<lparr>out_int1 := 3\<rparr>] []) 0 fresh))
     \<in> fetch_trace fresh (GetResult 0 0 None) (GetResult 0 3 (Some 3)) \<and>
   calls (snd (get_complex_result (scripted_env [plain_reply\<lparr>out_int1 := 3\<rparr>] []) 0 fresh))
     \<in> fetch_trace fresh (GetComplexResult 0 0 None None)
          (GetComplexResult 0 3 (Some 3) (Some 3)) \<and>
   calls (snd (get_scan (scripted_env [plain_reply\<lparr>out_int1 := 3\<rparr>] []) 0 1 fresh))
     \<in> fetch_trace fresh (GetScan 0 1 0 None) (GetScan 0 1 3 (Some 3)) \<and>
   calls (snd (get_complex_scan (scripted_env [plain_reply\<lparr>out_int1 := 3\<rparr>] []) 0 1 fresh))
     \<in> fetch_trace fresh (GetComplexScan 0 1 0 None None)
          (GetComplexScan 0 1 3 (Some 3) (Some 3)) \<and>
   calls (snd (get_all_scans
            (scripted_env [plain_reply\<lparr>out_int1 := 2, out_int2 := 3\<rparr>] []) 0 fresh))
     \<in> fetch_trace fresh (GetAllScansSizes 0) (GetAllScans 0 (Some 6)) \<and>
   calls (snd (get_pd_values (scripted_env [plain_reply\<lparr>out_int1 := 3\<rparr>] []) 0 1 fresh))
     \<in> fetch_trace fresh (GetPDValues 0 1 0 None) (GetPDValues 0 1 3 (Some 3)) \<and>
   calls (snd (get_aux_states (scripted_env [plain_reply\<lparr>out_int1 := 3\<rparr>] []) 0 fresh))
     \<in> fetch_trace fresh (GetAUXStates 0 0 None) (GetAUXStates 0 3 (Some 3)) \<and>
   calls (snd (get_aux_cycle_counts (scripted_env [plain_reply\<lparr>out_int1 := 3\<rparr>] []) 0 1 fresh))
     \<in> fetch_trace fresh (GetAUXCycleCounts 0 1 0 None) (GetAUXCycleCounts 0 1 3 (Some 3))"
proof -
  let ?E = "scripted_env [plain_reply\<lparr>out_int1 := 3\<rparr>] []"
  let ?E2 = "scripted_env [plain_reply\<lparr>out_int1 := 2, out_int2 := 3\<rparr>] []"
  have a: "has_data ?E fresh q" "reported ?E fresh q = 3" for q
    by (simp_all add: has_data_def succeeded_def reported_def run_defs)
  have b: "succeeded ?E2 (calls fresh @ [q])" "reported ?E2 fresh q = 2" "reported2 ?E2 fresh q = 3"
    for q
    by (simp_all add: succeeded_def reported_def reported2_def run_defs)
  show ?thesis
    using getters_fetch_buffer_exact [of ?E fresh 0 1 1] getters_fetch_buffer_exact [of ?E2 fresh 0 1 1] by (simp add: a b)
qed

text \<open>
  The error raised for a non-success status does not carry the status: with the
  same message in the library, the status 8 and the status 12 make
  \<^verbatim>\<open>set_trigger_mode\<close> raise the same \<^verbatim>\<open>RuntimeError\<close>, whose only content is
  its text.
\<close>

theorem failure_error_lacks_status_code:
  "fst (set_trigger_mode
          (scripted_env [plain_reply\<lparr>ret := 8\<rparr>, plain_reply\<lparr>buf_char := ''bad mode''\<rparr>] [])
          3 fresh)
     = Inl (RuntimeError ''Failed to set trigger mode: bad mode'') \<and>
   fst (set_trigger_mode
          (scripted_env [plain_reply\<lparr>ret := 12\<rparr>, plain_reply\<lparr>buf_char := ''bad mode''\<rparr>] [])
          3 fresh)
     = Inl (RuntimeError ''Failed to set trigger mode: bad mode'')"
  by (simp add: set_trigger_mode_def returning_none_def status_call_eq fetched_scripted
      ascii_decode_def run_defs)

text \<open>
  Claim C3, as amended. Take any method call, \<^verbatim>\<open>__init__\<close> included, and any
  status-returning foreign call \<open>c\<close> it makes that comes back with a non-success
  status. Then the error-message accessor with a 1024-byte buffer is the next foreign
  call and the last one of the method. Unless \<open>c\<close> is \<^verbatim>\<open>closeSession\<close>, the method
  raises. When the message is fetched and decodes, the method raises the
  \<^verbatim>\<open>RuntimeError\<close> whose text is the operation's own text followed by the message,
  except that \<^verbatim>\<open>close\<close> raises nothing for the not-initialised status. The
  numeric status is not part of the error. The status-returning calls are the entry
  points declared with \<^verbatim>\<open>restype = c_int\<close> other than the error-message accessor
  itself, whose own return value the wrapper never reads.
\<close>

theorem status_failure_reported:
  assumes "call_method E m s = (res, s')"
    and "calls s' = calls s @ pre @ c # post"
    and "status_checked c"
    and "failed E (calls s @ pre @ [c])"
  shows "post = [GetLastErrorMessage 1024] \<and>
     (c \<noteq> CloseSession \<longrightarrow> res \<noteq> None) \<and>
     (\<forall>msg. fetched E (calls s') = Inr msg \<longrightarrow>
        \<not> (c = CloseSession \<and>
           sint (ret (lib E (calls s @ pre @ [c]))) = ERROR_NOT_INITIALISED) \<longrightarrow>
        res = Some (RuntimeError (failure_text c @ msg)))"
  using reports_method [of E s m] assms unfolding reports_def by simp

text \<open>
  \<^verbatim>\<open>set_trigger_mode(3)\<close> against a library that answers with the status 8 and
  the message \<^verbatim>\<open>bad mode\<close>.
\<close>

theorem status_failure_reported_witness:
  "call_method
     (scripted_env [plain_reply\<lparr>ret := 8\<rparr>, plain_reply\<lparr>buf_char := ''bad mode''\<rparr>] [])
     (Set_trigger_mode 3) fresh
     = (Some (RuntimeError ''Failed to set trigger mode: bad mode''),
        after fresh [SetTriggerMode 3, GetLastErrorMessage 1024]) \<and>
   status_checked (SetTriggerMode 3) \<and>
   failed (scripted_env [plain_reply\<lparr>ret := 8\<rparr>, plain_reply\<lparr>buf_char := ''bad mode''\<rparr>] [])
     (calls fresh @ [] @ [SetTriggerMode 3]) \<and>
   fetched (scripted_env [plain_reply\<lparr>ret := 8\<rparr>, plain_reply\<lparr>buf_char := ''bad mode''\<rparr>] [])
     (calls (after fresh [SetTriggerMode 3, GetLastErrorMessage 1024])) = Inr ''bad mode''"
proof -
  let ?E = "scripted_env [plain_reply\<lparr>ret := 8\<rparr>, plain_reply\<lparr>buf_char := ''bad mode''\<rparr>] []"
  let ?s' = "after fresh [SetTriggerMode 3, GetLastErrorMessage 1024]"
  obtain res s' where run: "call_method ?E (Set_trigger_mode 3) fresh = (res, s')"
    by (cases "call_method ?E (Set_trigger_mode 3) fresh")
  have s': "s' = ?s'"
    using run
    by (simp add: set_trigger_mode_def outcome_returning_none outcome_status_call run_defs)
  have tr: "calls s' = calls fresh @ [] @ SetTriggerMode 3 # [GetLastErrorMessage 1024]"
    by (simp add: s' run_defs)
  have chk: "status_checked (SetTriggerMode 3)"
    by (simp add: status_checked_def)
  have bad: "failed ?E (calls fresh @ [] @ [SetTriggerMode 3])"
    by (simp add: failed_def run_defs)
  have msg: "fetched ?E (calls s') = Inr ''bad mode''"
    by (simp add: s' fetched_scripted ascii_decode_def run_defs)
  from status_failure_reported [OF run tr chk bad] msg have "res = Some (RuntimeError ''Failed to set trigger mode: bad mode'')"
    by simp
  with run s' chk bad msg show ?thesis by simp
qed

text \<open>
  Claim C4. \<^verbatim>\<open>close\<close> on a session that is already closed returns normally,
  changes nothing and makes no foreign call; and in every state a second \<^verbatim>\<open>close\<close>
  right after a first one returns normally and leaves the state the first one
  produced.
\<close>

theorem close_idempotent:
  "(\<not> initialized s \<longrightarrow> close E s = (Inr (), s)) \<and>
   close E (snd (close E s)) = (Inr (), snd (close E s))"
  by (simp add: close_closed close_clears)

text \<open>
  \<^verbatim>\<open>close\<close> on a session that was never opened.
\<close>

theorem close_idempotent_witness:
  "close (scripted_env [] []) fresh = (Inr (), fresh) \<and>
   close (scripted_env [] []) (snd (close (scripted_env [] []) fresh))
     = (Inr (), snd (close (scripted_env [] []) fresh))"
  using close_idempotent [of fresh "scripted_env [] []"] by (simp add: fresh_def)

text \<open>
  Claim C5. \<^verbatim>\<open>close\<close> on an open session leaves it marked closed whatever
  \<^verbatim>\<open>closeSession\<close> does. It raises only when \<^verbatim>\<open>closeSession\<close> returned a status
  that is neither success nor not-initialised, and then it raises the
  \<^verbatim>\<open>RuntimeError\<close> with the library's message; it raises nothing for the
  not-initialised status and nothing when the foreign call itself raised.
\<close>

theorem close_marks_closed:
  assumes "initialized s"
  shows "\<not> initialized (snd (close E s)) \<and>
     (\<forall>e. fst (close E s) = Inl e \<longrightarrow>
        failed E (calls s @ [CloseSession]) \<and>
        sint (ret (lib E (calls s @ [CloseSession]))) \<noteq> ERROR_NOT_INITIALISED \<and>
        (\<exists>msg. e = RuntimeError (''Failed to close GlazLib session: '' @ msg))) \<and>
     (sint (ret (lib E (calls s @ [CloseSession]))) = ERROR_NOT_INITIALISED \<longrightarrow>
        fst (close E s) = Inr ()) \<and>
     (raised (lib E (calls s @ [CloseSession])) \<noteq> None \<longrightarrow> fst (close E s) = Inr ()) \<and>
     (\<forall>msg. failed E (calls s @ [CloseSession]) \<longrightarrow>
        sint (ret (lib E (calls s @ [CloseSession]))) \<noteq> ERROR_NOT_INITIALISED \<longrightarrow>
        fetched E (calls s @ [CloseSession, GetLastErrorMessage 1024]) = Inr msg \<longrightarrow>
        fst (close E s) = Inl (RuntimeError (''Failed to close GlazLib session: '' @ msg)))"
  using assms
  by (auto simp add: close_eq failed_def Let_def ERROR_NONE_def ERROR_NOT_INITIALISED_def
      split: option.splits sum.splits if_splits)

text \<open>
  \<^verbatim>\<open>close\<close> on an open session when \<^verbatim>\<open>closeSession\<close> returns the status 3,
  when it returns the not-initialised status 1, and when the foreign call raises.
\<close>

theorem close_marks_closed_witness:
  "initialized (fresh\<lparr>initialized := True\<rparr>) \<and>
   \<not> initialized (snd (close
        (scripted_env [plain_reply\<lparr>ret := 3\<rparr>, plain_reply\<lparr>buf_char := ''usb''\<rparr>] [])
        (fresh\<lparr>initialized := True\<rparr>))) \<and>
   fst (close (scripted_env [plain_reply\<lparr>ret := 3\<rparr>, plain_reply\<lparr>buf_char := ''usb''\<rparr>] [])
         (fresh\<lparr>initialized := True\<rparr>))
     = Inl (RuntimeError ''Failed to close GlazLib session: usb'') \<and>
   \<not> initialized (snd (close (scripted_env [plain_reply\<lparr>ret := 1\<rparr>] [])
        (fresh\<lparr>initialized := True\<rparr>))) \<and>
   fst (close (scripted_env [plain_reply\<lparr>ret := 1\<rparr>] []) (fresh\<lparr>initialized := True\<rparr>))
     = Inr () \<and>
   \<not> initialized (snd (close (scripted_env [plain_reply\<lparr>raised := Some ''fault''\<rparr>] [])
        (fresh\<lparr>initialized := True\<rparr>))) \<and>
   fst (close (scripted_env [plain_reply\<lparr>raised := Some ''fault''\<rparr>] [])
         (fresh\<lparr>initialized := True\<rparr>))
     = Inr ()"
proof -
  let ?s = "fresh\<lparr>initialized := True\<rparr>"
  let ?E3 = "scripted_env [plain_reply\<lparr>ret := 3\<rparr>, plain_reply\<lparr>buf_char := ''usb''\<rparr>] []"
  let ?E1 = "scripted_env [plain_reply\<lparr>ret := 1\<rparr>] []"
  let ?Ef = "scripted_env [plain_reply\<lparr>raised := Some ''fault''\<rparr>] []"
  have op: "initialized ?s" by simp
  have bad: "failed ?E3 (calls ?s @ [CloseSession])"
    "sint (ret (lib ?E3 (calls ?s @ [CloseSession]))) \<noteq> ERROR_NOT_INITIALISED"
    "fetched ?E3 (calls ?s @ [CloseSession, GetLastErrorMessage 1024]) = Inr ''usb''"
    by (simp_all add: failed_def fetched_scripted ascii_decode_def run_defs)
  have benign: "sint (ret (lib ?E1 (calls ?s @ [CloseSession]))) = ERROR_NOT_INITIALISED"
    by (simp add: run_defs)
  have fault: "raised (lib ?Ef (calls ?s @ [CloseSession])) \<noteq> None"
    by (simp add: run_defs)
  note c3 = close_marks_closed [OF op, of ?E3] and c1 = close_marks_closed [OF op, of ?E1] and cf = close_marks_closed [OF op, of ?Ef]
  have r3: "fst (close ?E3 ?s) = Inl (RuntimeError ''Failed to close GlazLib session: usb'')"
    using c3 [THEN conjunct2, THEN conjunct2, THEN conjunct2, THEN conjunct2, rule_format, OF bad]
    by simp
  have r1: "fst (close ?E1 ?s) = Inr ()"
    using c1 [THEN conjunct2, THEN conjunct2, THEN conjunct1, rule_format, OF benign] .
  have rf: "fst (close ?Ef ?s) = Inr ()"
    using cf [THEN conjunct2, THEN conjunct2, THEN conjunct2, THEN conjunct1, rule_format, OF fault] .
  show ?thesis
    using op c3 [THEN conjunct1] c1 [THEN conjunct1] cf [THEN conjunct1] r3 r1 rf
    by (intro conjI)
qed

text \<open>
  Claim C6. When a configuration setter raises, for whatever reason, the
  \<^verbatim>\<open>_initialized\<close> flag is what it was before the call; and any setter or
  acquisition method called next is passed on to the library (it makes at least one
  foreign call) and leaves the flag unchanged too.
\<close>

theorem setter_failure_keeps_session:
  assumes "is_setter m" and "call_method E m s = (Some e, s')"
  shows "initialized s' = initialized s \<and>
     (\<forall>m2. is_setter m2 \<or> is_acquisition m2 \<longrightarrow>
        initialized (snd (call_method E m2 s')) = initialized s \<and>
        length (calls s') < length (calls (snd (call_method E m2 s'))))"
proof -
  have a: "\<not> is_init m2 \<and> m2 \<noteq> Close" if "is_setter m2 \<or> is_acquisition m2" for m2
    using that by (cases m2) simp_all
  have "initialized s' = initialized s"
    using frame_method[of m E s] a[of m] assms by simp
  then show ?thesis
    using frame_method[of _ E s'] a by (auto simp add: grows_method)
qed

text \<open>
  \<^verbatim>\<open>set_scan_count(0)\<close> on an open session against a library that refuses it
  with the status 7, followed by \<^verbatim>\<open>set_scan_count(10)\<close>.
\<close>

theorem setter_failure_keeps_session_witness:
  "is_setter (Set_scan_count 0) \<and>
   call_method
     (scripted_env [plain_reply\<lparr>ret := 7\<rparr>, plain_reply\<lparr>buf_char := ''bad count''\<rparr>] [])
     (Set_scan_count 0) (fresh\<lparr>initialized := True\<rparr>)
     = (Some (RuntimeError ''Failed to set scan count: bad count''),
        after (fresh\<lparr>initialized := True\<rparr>) [SetScanCount 0, GetLastErrorMessage 1024]) \<and>
   initialized (after (fresh\<lparr>initialized := True\<rparr>) [SetScanCount 0, GetLastErrorMessage 1024]) \<and>
   initialized (snd (call_method
      (scripted_env [plain_reply\<lparr>ret := 7\<rparr>, plain_reply\<lparr>buf_char := ''bad count''\<rparr>] [])
      (Set_scan_count 10)
      (after (fresh\<lparr>initialized := True\<rparr>) [SetScanCount 0, GetLastErrorMessage 1024]))) \<and>
   2 < length (calls (snd (call_method
      (scripted_env [plain_reply\<lparr>ret := 7\<rparr>, plain_reply\<lparr>buf_char := ''bad count''\<rparr>] [])
      (Set_scan_count 10)
      (after (fresh\<lparr>initialized := True\<rparr>) [SetScanCount 0, GetLastErrorMessage 1024]))))"
proof -
  let ?E = "scripted_env [plain_reply\<lparr>ret := 7\<rparr>, plain_reply\<lparr>buf_char := ''bad count''\<rparr>] []"
  let ?s = "fresh\<lparr>initialized := True\<rparr>"
  let ?s' = "after ?s [SetScanCount 0, GetLastErrorMessage 1024]"
  have set: "is_setter (Set_scan_count 0)" "is_setter (Set_scan_count 10)" by simp_all
  have run: "call_method ?E (Set_scan_count 0) ?s
      = (Some (RuntimeError ''Failed to set scan count: bad count''), ?s')"
    by (simp add: set_scan_count_def outcome_returning_none outcome_status_call raised_error_def
        fetched_scripted ascii_decode_def run_defs)
  have len: "length (calls ?s') = 2" by (simp add: run_defs)
  have op: "initialized ?s" "initialized ?s'" by (simp_all add: after_def)
  from setter_failure_keeps_session [OF set(1) run]
  have "\<forall>m2. is_setter m2 \<or> is_acquisition m2 \<longrightarrow>
          initialized (snd (call_method ?E m2 ?s')) = initialized ?s \<and>
          length (calls ?s') < length (calls (snd (call_method ?E m2 ?s')))"
    by blast
  then have "initialized (snd (call_method ?E (Set_scan_count 10) ?s')) = initialized ?s \<and>
      length (calls ?s') < length (calls (snd (call_method ?E (Set_scan_count 10) ?s')))"
    using set(2) by blast
  then have next_call: "initialized (snd (call_method ?E (Set_scan_count 10) ?s'))"
      "2 < length (calls (snd (call_method ?E (Set_scan_count 10) ?s')))"
    using op(1) len by simp_all
  show ?thesis
    using set(1) run op(2) next_call by blast
qed

text \<open>
  A configuration name that is neither a file nor found in the search directories
  makes \<^verbatim>\<open>__init__\<close> raise \<^verbatim>\<open>FileNotFoundError\<close> without any foreign call:
  neither initialisation path is taken, and the device-type path is not tried.
\<close>

theorem init_missing_config_no_path:
  "init (scripted_env [] []) (Some ''missing'') 6 True True fresh
     = (Inl (FileNotFoundError ''Could not find configuration file: missing.xml''), fresh)"
  by (simp add: init_def init_body_def resolve_config_def find_config_file_def
      default_search_dirs_def scripted_env_simps fresh_def lower_def lower_char_def endswith_def)

text \<open>
  Claim C7, as amended. The flag is set exactly when \<^verbatim>\<open>__init__\<close> returns
  normally. The configuration file is the first of the paths \<^verbatim>\<open>__init__\<close> looks at
  that is a file. When there is one, the configuration-file initialise call is made
  with it, and no other initialise call. When there is none and a name was supplied,
  \<^verbatim>\<open>__init__\<close> raises \<^verbatim>\<open>FileNotFoundError\<close> and makes no foreign call: the
  device-type path is not tried. When there is none and no name was supplied, the
  device-type initialise call is made, and no other. In both cases with a call,
  nothing follows it but the error-message accessor, \<^verbatim>\<open>__init__\<close> returns
  normally exactly when the call returned success, and raises a \<^verbatim>\<open>RuntimeError\<close>
  otherwise.
\<close>

theorem init_paths:
  assumes "init E config_file device_type use_defaults allow_demo s = (res, s')"
  shows "(initialized s' \<longleftrightarrow> res = Inr ()) \<and>
     (case find (isfile E) (candidates E config_file) of
        Some p \<Rightarrow> init_attempt E s (InitialiseSession p) res s'
      | None \<Rightarrow>
          (case config_file of
             Some f \<Rightarrow>
               res = Inl (FileNotFoundError
                            (''Could not find configuration file: '' @ with_xml f)) \<and>
               calls s' = calls s
           | None \<Rightarrow>
               init_attempt E s
                 (InitialiseSingleDeviceSession device_type use_defaults allow_demo) res s'))"
proof -
  have res: "res = fst (init E config_file device_type use_defaults allow_demo s)"
    and s': "s' = snd (init E config_file device_type use_defaults allow_demo s)"
    using assms by simp_all
  have flag: "initialized s' \<longleftrightarrow> res = Inr ()"
    unfolding res s' by (rule init_flag)
  have paths: "case find (isfile E) (candidates E config_file) of
        Some p \<Rightarrow> init_attempt E s (InitialiseSession p) res s'
      | None \<Rightarrow>
          (case config_file of
             Some f \<Rightarrow>
               res = Inl (FileNotFoundError
                            (''Could not find configuration file: '' @ with_xml f)) \<and>
               calls s' = calls s
           | None \<Rightarrow>
               init_attempt E s
                 (InitialiseSingleDeviceSession device_type use_defaults allow_demo) res s')"
  proof (cases "find (isfile E) (candidates E config_file)")
    case (Some p)
    then have r: "resolve_config E config_file = Inr (Some p)"
      by (simp add: resolve_config_find)
    show ?thesis
      using init_attempt_resolved[OF r, of s device_type use_defaults allow_demo] Some
      by (simp add: res s' init_call_def)
  next
    case None
    show ?thesis
    proof (cases config_file)
      case (Some f)
      with None have r: "resolve_config E config_file
          = Inl (FileNotFoundError (''Could not find configuration file: '' @ with_xml f))"
        by (simp add: resolve_config_find)
      show ?thesis
        using init_unresolved[OF r, of device_type use_defaults allow_demo s] None Some
        by (simp add: res s')
    next
      case cfg: None
      with None have r: "resolve_config E config_file = Inr None"
        by (simp add: resolve_config_find)
      show ?thesis
        using init_attempt_resolved[OF r, of s device_type use_defaults allow_demo] None cfg
        by (simp add: res s' init_call_def)
    qed
  qed
  show ?thesis
    using flag paths by (rule conjI)
qed

text \<open>
  \<^verbatim>\<open>__init__\<close> with a name found in the \<^verbatim>\<open>configs\<close> directory, with the path
  of an existing file, with no name and a default file in the working directory, and
  with no name and no file at all.
\<close>

theorem init_paths_witness:
  "init (scripted_env [] [''/opt/pyglaz/configs/lab.xml'']) (Some ''lab'') 6 True True fresh
     = (Inr (), \<lparr>initialized = True,
                  calls = [InitialiseSession ''/opt/pyglaz/configs/lab.xml'']\<rparr>) \<and>
   succeeded (scripted_env [] [''/opt/pyglaz/configs/lab.xml''])
     (calls fresh @ [InitialiseSession ''/opt/pyglaz/configs/lab.xml'']) \<and>
   init (scripted_env [] [''/data/my.xml'']) (Some ''/data/my.xml'') 6 True True fresh
     = (Inr (), \<lparr>initialized = True, calls = [InitialiseSession ''/data/my.xml'']\<rparr>) \<and>
   succeeded (scripted_env [] [''/data/my.xml''])
     (calls fresh @ [InitialiseSession ''/data/my.xml'']) \<and>
   init (scripted_env [] [''/home/user/double_spectrometer.xml'']) None 6 True True fresh
     = (Inr (), \<lparr>initialized = True,
                  calls = [InitialiseSession ''/home/user/double_spectrometer.xml'']\<rparr>) \<and>
   succeeded (scripted_env [] [''/home/user/double_spectrometer.xml''])
     (calls fresh @ [InitialiseSession ''/home/user/double_spectrometer.xml'']) \<and>
   init (scripted_env [] []) None 6 True True fresh
     = (Inr (), \<lparr>initialized = True, calls = [InitialiseSingleDeviceSession 6 True True]\<rparr>) \<and>
   succeeded (scripted_env [] []) (calls fresh @ [InitialiseSingleDeviceSession 6 True True])"
proof -
  let ?E1 = "scripted_env [] [''/opt/pyglaz/configs/lab.xml'']"
  let ?E2 = "scripted_env [] [''/data/my.xml'']"
  let ?E3 = "scripted_env [] [''/home/user/double_spectrometer.xml'']"
  let ?E4 = "scripted_env [] []"
  have f1: "find (isfile ?E1) (candidates ?E1 (Some ''lab'')) = Some ''/opt/pyglaz/configs/lab.xml''"
    by (simp add: candidates_scripted scripted_env_simps)
  have f2: "find (isfile ?E2) (candidates ?E2 (Some ''/data/my.xml'')) = Some ''/data/my.xml''"
    by (simp add: candidates_scripted scripted_env_simps)
  have f3: "find (isfile ?E3) (candidates ?E3 None) = Some ''/home/user/double_spectrometer.xml''"
    by (simp add: candidates_scripted scripted_env_simps)
  have f4: "find (isfile ?E4) (candidates ?E4 None) = None"
    by (simp add: candidates_scripted scripted_env_simps)
  note run1 = init_file_scripted [OF f1, of 6 True True]
    and run2 = init_file_scripted [OF f2, of 6 True True]
    and run3 = init_file_scripted [OF f3, of 6 True True]
    and run4 = init_device_scripted
  have s1: "succeeded ?E1 (calls fresh @ [InitialiseSession ''/opt/pyglaz/configs/lab.xml''])"
    using init_paths [OF run1, THEN conjunct2] by (simp add: f1 init_attempt_def fresh_def)
  have s2: "succeeded ?E2 (calls fresh @ [InitialiseSession ''/data/my.xml''])"
    using init_paths [OF run2, THEN conjunct2] by (simp add: f2 init_attempt_def fresh_def)
  have s3: "succeeded ?E3 (calls fresh @ [InitialiseSession ''/home/user/double_spectrometer.xml''])"
    using init_paths [OF run3, THEN conjunct2] by (simp add: f3 init_attempt_def fresh_def)
  have s4: "succeeded ?E4 (calls fresh @ [InitialiseSingleDeviceSession 6 True True])"
    using init_paths [OF run4, THEN conjunct2] by (simp add: f4 init_attempt_def fresh_def)
  show ?thesis
    using run1 s1 run2 s2 run3 s3 run4 s4 by (intro conjI)
qed

text \<open>
  Claim C8. When \<^verbatim>\<open>getAllScansSizes\<close> returns success with two positive counts
  and the fetch returns success, \<^verbatim>\<open>get_all_scans\<close> returns an array of unsigned
  16-bit elements of shape \<open>[num_scans, pixels_per_scan]\<close> whose elements, in
  row-major order, are the samples of the buffer as the library stored them.
\<close>

theorem get_all_scans_shape:
  assumes "succeeded E (calls s @ [GetAllScansSizes index])"
    and "num_scans = sint (reported E s (GetAllScansSizes index))"
    and "pixels_per_scan = sint (reported2 E s (GetAllScansSizes index))"
    and "0 < num_scans" and "0 < pixels_per_scan"
    and "fetch = GetAllScans index (Some (nat (num_scans * pixels_per_scan)))"
    and "succeeded E (calls s @ [GetAllScansSizes index, fetch])"
  shows "get_all_scans E index s =
     (Inr (UInt16 [nat num_scans, nat pixels_per_scan]
             (store (nat (num_scans * pixels_per_scan)) 0
                (buf_uint16 (lib E (calls s @ [GetAllScansSizes index, fetch]))))),
      after s [GetAllScansSizes index, fetch])"
proof -
  let ?q = "GetAllScansSizes index"
  let ?s1 = "s\<lparr>calls := calls s @ [?q]\<rparr>"
  have sizes: "get_all_scans_sizes E index s = (Inr (num_scans, pixels_per_scan), ?s1)"
    using assms(1)
    by (simp add: get_all_scans_sizes_def status_call_ok assms(2,3) reported_def reported2_def)
  have pos: "\<not> (num_scans \<le> 0 \<or> pixels_per_scan \<le> 0)"
    using assms(4,5) by simp
  have total: "0 \<le> num_scans * pixels_per_scan"
    using assms(4,5) by simp
  have n: "nat num_scans * nat pixels_per_scan = nat (num_scans * pixels_per_scan)"
    using assms(4,5) by (simp add: nat_mult_distrib)
  have second: "status_call E fetch ''Failed to get all scans: '' ?s1
      = (Inr (lib E (calls s @ [?q, fetch])), s\<lparr>calls := calls s @ [?q, fetch]\<rparr>)"
    using assms(7) status_call_ok[of E ?s1 fetch] by (simp add: assms(6))
  have rr: "read_range (store (nat (num_scans * pixels_per_scan)) 0 w)
       (num_scans * pixels_per_scan) = Inr (store (nat (num_scans * pixels_per_scan)) 0 w)"
    for w :: "c_uint16 list"
    using total by (simp add: read_range_def length_store)
  show ?thesis
    by (simp add: get_all_scans_def sizes pos Let_def assms(6)[symmetric] second rr
        np_array_uint16_def length_store n after_def)
qed

text \<open>
  Two scans of three pixels.
\<close>

theorem get_all_scans_shape_witness:
  "get_all_scans
     (scripted_env [plain_reply\<lparr>out_int1 := 2, out_int2 := 3\<rparr>,
                    plain_reply\<lparr>buf_uint16 := [10, 11, 12, 20, 21, 22]\<rparr>] []) 0 fresh
     = (Inr (UInt16 [2, 3] [10, 11, 12, 20, 21, 22]),
        after fresh [GetAllScansSizes 0, GetAllScans 0 (Some 6)])"
proof -
  let ?E = "scripted_env [plain_reply\<lparr>out_int1 := 2, out_int2 := 3\<rparr>,
                    plain_reply\<lparr>buf_uint16 := [10, 11, 12, 20, 21, 22]\<rparr>] []"
  have a1: "succeeded ?E (calls fresh @ [GetAllScansSizes 0])"
    by (simp add: succeeded_def run_defs)
  have a2: "(2::int) = sint (reported ?E fresh (GetAllScansSizes 0))"
    by (simp add: reported_def run_defs)
  have a3: "(3::int) = sint (reported2 ?E fresh (GetAllScansSizes 0))"
    by (simp add: reported2_def run_defs)
  have a6: "GetAllScans 0 (Some 6) = GetAllScans 0 (Some (nat (2 * 3)))"
    by simp
  have a7: "succeeded ?E (calls fresh @ [GetAllScansSizes 0, GetAllScans 0 (Some 6)])"
    by (simp add: succeeded_def run_defs)
  have buf: "store (nat (2 * 3)) 0
       (buf_uint16 (lib ?E (calls fresh @ [GetAllScansSizes 0, GetAllScans 0 (Some 6)])))
     = [10, 11, 12, 20, 21, 22 :: c_uint16]"
    by (simp add: store_def run_defs)
  from get_all_scans_shape [OF a1 a2 a3 _ _ a6 a7] buf show ?thesis
    by simp
qed

text \<open>
  Claim C9. Over the life of a session object (\<^verbatim>\<open>__init__\<close>, any method calls,
  then \<^verbatim>\<open>__del__\<close>), \<^verbatim>\<open>closeSession\<close> is called exactly once when
  \<^verbatim>\<open>__init__\<close> opened the session and not at all when it did not, however many
  times \<^verbatim>\<open>close\<close> is called in between and whatever the calls raise; and the
  object ends marked closed.
\<close>

theorem close_session_once:
  assumes "\<forall>m\<in>set ms. \<not> is_init m"
  shows "count_list (calls (lifetime E cfg dt ud ad ms s)) CloseSession
           = count_list (calls s) CloseSession
             + (if fst (init E cfg dt ud ad s) = Inr () then 1 else 0)
         \<and> \<not> initialized (lifetime E cfg dt ud ad ms s)"
proof -
  let ?s1 = "snd (init E cfg dt ud ad s)"
  let ?s2 = "foldl (\<lambda>s1 m. snd (call_method E m s1)) ?s1 ms"
  have "pending (del E ?s2) = pending ?s1"
    by (simp add: del_def close_pending foldl_pending[OF assms])
  moreover have "\<not> initialized (del E ?s2)"
    by (simp add: del_def close_pending)
  ultimately show ?thesis
    by (simp add: lifetime_def pending_def closes_def init_pending[unfolded pending_def closes_def])
qed

text \<open>
  A session that is opened, configured, closed, used again, closed again and then
  destroyed.
\<close>

theorem close_session_once_witness:
  "count_list
     (calls (lifetime (scripted_env [] []) None 6 True True
               [Set_scan_count 10, Close, Run_measurement, Close] fresh))
     CloseSession = 1 \<and>
   \<not> initialized
       (lifetime (scripted_env [] []) None 6 True True
          [Set_scan_count 10, Close, Run_measurement, Close] fresh)"
proof -
  have ms: "\<forall>m\<in>set [Set_scan_count 10, Close, Run_measurement, Close]. \<not> is_init m"
    by simp
  have none: "count_list (calls fresh) CloseSession = 0"
    by (simp add: fresh_def)
  from close_session_once [OF ms, of "scripted_env [] []" None 6 True True fresh] show ?thesis
    by (simp add: init_device_scripted none)
qed

text \<open>
  When the library's message is not valid UTF-8, decoding it raises first: the
  exception that leaves \<^verbatim>\<open>set_usb_parameters\<close> is the \<^verbatim>\<open>UnicodeDecodeError\<close>, not
  a \<^verbatim>\<open>RuntimeError\<close>.
\<close>

theorem set_usb_parameters_unicode_error:
  "fst (set_usb_parameters
          (scripted_env [plain_reply, plain_reply\<lparr>buf_char := [CHR 0xFF]\<rparr>] [])
          1000 512 4 fresh)
     = Inl (UnicodeDecodeError ''invalid start byte'')"
  by (simp add: set_usb_parameters_def returning_none_def status_call_eq fetched_scripted
      ascii_decode_def run_defs)

text \<open>
  Claim C10, as amended. \<^verbatim>\<open>set_usb_parameters\<close> never returns normally, whatever
  its arguments and whatever the library does: the value of a call declared with
  \<^verbatim>\<open>restype = None\<close> is \<^verbatim>\<open>None\<close>, which differs from the success status. When
  the foreign call returns, the error-message accessor is called next and is the last
  call; the exception is the \<^verbatim>\<open>RuntimeError\<close> with the message when the message is
  fetched and decodes, and otherwise what fetching the message raised. When the
  foreign call itself raises, that \<^verbatim>\<open>OSError\<close> leaves the method.
\<close>

theorem set_usb_parameters_always_raises:
  "fst (set_usb_parameters E timeout bulk_size queue_size s) \<noteq> Inr () \<and>
   (\<forall>m. raised (lib E (calls s @ [SetUSBParameters timeout bulk_size queue_size])) = Some m \<longrightarrow>
      set_usb_parameters E timeout bulk_size queue_size s
        = (Inl (OSError m), after s [SetUSBParameters timeout bulk_size queue_size])) \<and>
   (raised (lib E (calls s @ [SetUSBParameters timeout bulk_size queue_size])) = None \<longrightarrow>
      calls (snd (set_usb_parameters E timeout bulk_size queue_size s))
        = calls s @ [SetUSBParameters timeout bulk_size queue_size, GetLastErrorMessage 1024] \<and>
      (\<forall>msg. fetched E (calls s @ [SetUSBParameters timeout bulk_size queue_size,
                                  GetLastErrorMessage 1024]) = Inr msg \<longrightarrow>
         fst (set_usb_parameters E timeout bulk_size queue_size s)
           = Inl (RuntimeError (''Failed to set USB parameters: '' @ msg))) \<and>
      (\<forall>e. fetched E (calls s @ [SetUSBParameters timeout bulk_size queue_size,
                                GetLastErrorMessage 1024]) = Inl e \<longrightarrow>
         fst (set_usb_parameters E timeout bulk_size queue_size s) = Inl e))"
  by (simp add: set_usb_parameters_def returning_none_def status_call_eq Let_def after_def
      split: option.splits sum.splits)

text \<open>
  \<^verbatim>\<open>set_usb_parameters(1000, 512, 4)\<close> against a library that succeeds, and
  against one whose call faults.
\<close>

theorem set_usb_parameters_always_raises_witness:
  "raised (lib (scripted_env [plain_reply, plain_reply\<lparr>buf_char := ''no error''\<rparr>] [])
            (calls fresh @ [SetUSBParameters 1000 512 4])) = None \<and>
   sint (ret (lib (scripted_env [plain_reply, plain_reply\<lparr>buf_char := ''no error''\<rparr>] [])
            (calls fresh @ [SetUSBParameters 1000 512 4]))) = ERROR_NONE \<and>
   fst (set_usb_parameters
          (scripted_env [plain_reply, plain_reply\<lparr>buf_char := ''no error''\<rparr>] [])
          1000 512 4 fresh)
     = Inl (RuntimeError ''Failed to set USB parameters: no error'') \<and>
   set_usb_parameters (scripted_env [plain_reply\<lparr>raised := Some ''fault''\<rparr>] []) 1000 512 4 fresh
     = (Inl (OSError ''fault''), after fresh [SetUSBParameters 1000 512 4])"
proof -
  let ?E = "scripted_env [plain_reply, plain_reply\<lparr>buf_char := ''no error''\<rparr>] []"
  let ?F = "scripted_env [plain_reply\<lparr>raised := Some ''fault''\<rparr>] []"
  have ok: "raised (lib ?E (calls fresh @ [SetUSBParameters 1000 512 4])) = None"
    "sint (ret (lib ?E (calls fresh @ [SetUSBParameters 1000 512 4]))) = ERROR_NONE"
    by (simp_all add: run_defs)
  have msg: "fetched ?E (calls fresh @ [SetUSBParameters 1000 512 4, GetLastErrorMessage 1024])
      = Inr ''no error''"
    by (simp add: fetched_scripted ascii_decode_def run_defs)
  have fault: "raised (lib ?F (calls fresh @ [SetUSBParameters 1000 512 4])) = Some ''fault''"
    by (simp add: run_defs)
  have r1: "fst (set_usb_parameters ?E 1000 512 4 fresh)
      = Inl (RuntimeError (''Failed to set USB parameters: '' @ ''no error''))"
    using set_usb_parameters_always_raises [of ?E 1000 512 4 fresh, THEN conjunct2, THEN conjunct2, rule_format, OF ok(1),
        THEN conjunct2, THEN conjunct1, rule_format, OF msg] .
  have r2: "set_usb_parameters ?F 1000 512 4 fresh
      = (Inl (OSError ''fault''), after fresh [SetUSBParameters 1000 512 4])"
    using set_usb_parameters_always_raises [of ?F 1000 512 4 fresh, THEN conjunct2, THEN conjunct1, rule_format, OF fault] .
  from ok r1 r2 show ?thesis by simp
qed

end
